theory Spec2Isabelle
  imports Complex_Main "HOL-Library.AList"
begin

section \<open>JavaScript values\<close>

text \<open>
  Answers, condition values and request fields are JSON-born JavaScript values. Numbers
  are the finite IEEE doubles a JSON document can hold, embedded in the rationals.
  Objects used as dictionaries (\<open>answers\<close>, \<open>graph\<close>, \<open>visited\<close>) are modelled
  as finite maps; property names inherited from \<open>Object.prototype\<close> are outside the
  model.
\<close>

datatype jsval =
    JUndefined
  | JNull
  | JBool bool
  | JNum rat
  | JStr string
  | JArr "jsval list"
  | JObj "(string \<times> jsval) list"

text \<open>A thrown value; only its \<open>message\<close> is ever read by the code.\<close>

datatype jserror = Error string | TypeError string | RangeError string

fun message :: "jserror \<Rightarrow> string" where
  "message (Error m) = m"
| "message (TypeError m) = m"
| "message (RangeError m) = m"

text \<open>The result of \<open>parseFloat\<close>: \<open>None\<close> stands for \<open>NaN\<close>.\<close>

datatype jsfloat = Finite rat | PlusInfinity | MinusInfinity

fun float_less :: "jsfloat \<Rightarrow> jsfloat \<Rightarrow> bool" where
  "float_less (Finite a) (Finite b) = (a < b)"
| "float_less (Finite a) PlusInfinity = True"
| "float_less (Finite a) MinusInfinity = False"
| "float_less MinusInfinity MinusInfinity = False"
| "float_less MinusInfinity _ = True"
| "float_less PlusInfinity _ = False"

text \<open>
  The language built-ins the operator table calls. They belong to the JavaScript
  runtime, not to the repository, and are taken as parameters:
  \<open>loose_equals\<close> is \<open>==\<close>, \<open>array_includes\<close> is \<open>Array.prototype.includes\<close>,
  \<open>string_includes\<close> is \<open>String.prototype.includes\<close> (\<open>None\<close> when it throws),
  \<open>parse_float\<close> is \<open>parseFloat\<close>.
\<close>

record js_builtins =
  loose_equals :: "jsval \<Rightarrow> jsval \<Rightarrow> bool"
  array_includes :: "jsval list \<Rightarrow> jsval \<Rightarrow> bool"
  string_includes :: "string \<Rightarrow> jsval \<Rightarrow> bool option"
  parse_float :: "jsval \<Rightarrow> jsfloat option"

section \<open>Conditional logic engine (src/services/conditionalLogic.js)\<close>

record condition =
  questionKey :: string
  operator :: string
  cvalue :: jsval

record rules =
  logic :: string
  conditions :: "condition list option"

text \<open>\<open>answers[key]\<close>: a missing key reads as \<open>undefined\<close>.\<close>

definition js_get :: "(string \<rightharpoonup> jsval) \<Rightarrow> string \<Rightarrow> jsval" where
  "js_get answers k = (case answers k of None \<Rightarrow> JUndefined | Some v \<Rightarrow> v)"

text \<open>The six entries of \<open>this.operators\<close> (lines 4-33).\<close>

definition op_equals :: "js_builtins \<Rightarrow> jsval \<Rightarrow> jsval \<Rightarrow> bool option" where
  "op_equals B actual expected = Some (loose_equals B actual expected)"

definition op_notEquals :: "js_builtins \<Rightarrow> jsval \<Rightarrow> jsval \<Rightarrow> bool option" where
  "op_notEquals B actual expected = Some (\<not> loose_equals B actual expected)"

definition op_contains :: "js_builtins \<Rightarrow> jsval \<Rightarrow> jsval \<Rightarrow> bool option" where
  "op_contains B actual expected =
     (case actual of
        JArr xs \<Rightarrow> Some (array_includes B xs expected)
      | JStr s \<Rightarrow> string_includes B s expected
      | _ \<Rightarrow> Some False)"

definition op_notContains :: "js_builtins \<Rightarrow> jsval \<Rightarrow> jsval \<Rightarrow> bool option" where
  "op_notContains B actual expected =
     (case actual of
        JArr xs \<Rightarrow> Some (\<not> array_includes B xs expected)
      | JStr s \<Rightarrow> map_option Not (string_includes B s expected)
      | _ \<Rightarrow> Some True)"

definition op_greaterThan :: "js_builtins \<Rightarrow> jsval \<Rightarrow> jsval \<Rightarrow> bool option" where
  "op_greaterThan B actual expected =
     (case (parse_float B actual, parse_float B expected) of
        (Some numActual, Some numExpected) \<Rightarrow> Some (float_less numExpected numActual)
      | _ \<Rightarrow> Some False)"

definition op_lessThan :: "js_builtins \<Rightarrow> jsval \<Rightarrow> jsval \<Rightarrow> bool option" where
  "op_lessThan B actual expected =
     (case (parse_float B actual, parse_float B expected) of
        (Some numActual, Some numExpected) \<Rightarrow> Some (float_less numActual numExpected)
      | _ \<Rightarrow> Some False)"

text \<open>\<open>this.operators[name]\<close>: \<open>None\<close> when the table has no such entry.\<close>

definition operators ::
  "js_builtins \<Rightarrow> string \<Rightarrow> (jsval \<Rightarrow> jsval \<Rightarrow> bool option) option" where
  "operators B name =
     (if name = ''equals'' then Some (op_equals B)
      else if name = ''notEquals'' then Some (op_notEquals B)
      else if name = ''contains'' then Some (op_contains B)
      else if name = ''notContains'' then Some (op_notContains B)
      else if name = ''greaterThan'' then Some (op_greaterThan B)
      else if name = ''lessThan'' then Some (op_lessThan B)
      else None)"

text \<open>
  The callback of \<open>rules.conditions.map\<close> (lines 50-70): unknown operator gives false,
  then a missing answer gives false, then the operator runs inside \<open>try\<close>, a throw
  giving false.
\<close>

definition evaluateCondition ::
  "js_builtins \<Rightarrow> (string \<rightharpoonup> jsval) \<Rightarrow> condition \<Rightarrow> bool" where
  "evaluateCondition B answers c =
     (let answer = js_get answers (questionKey c) in
      case operators B (operator c) of
        None \<Rightarrow> False
      | Some operatorFn \<Rightarrow>
          if answer = JUndefined \<or> answer = JNull \<or> answer = JStr []
          then False
          else (case operatorFn answer (cvalue c) of None \<Rightarrow> False | Some r \<Rightarrow> r))"

text \<open>\<open>shouldShowQuestion(rules, answers)\<close> (lines 43-79).\<close>

definition shouldShowQuestion ::
  "js_builtins \<Rightarrow> rules option \<Rightarrow> (string \<rightharpoonup> jsval) \<Rightarrow> bool" where
  "shouldShowQuestion B rs answers =
     (case rs of
        None \<Rightarrow> True
      | Some r \<Rightarrow>
          (case conditions r of
             None \<Rightarrow> True
           | Some cs \<Rightarrow>
               if length cs = 0 then True
               else
                 (let conditionResults = map (evaluateCondition B answers) cs in
                  if logic r = ''OR''
                  then list_ex (\<lambda>result. result = True) conditionResults
                  else list_all (\<lambda>result. result = True) conditionResults)))"

section \<open>Field mapper (airtableService.js) and question validation (formValidation.js)\<close>

text \<open>Truthiness and \<open>typeof\<close> of a JSON-born value.\<close>

fun js_truthy :: "jsval \<Rightarrow> bool" where
  "js_truthy JUndefined = False"
| "js_truthy JNull = False"
| "js_truthy (JBool b) = b"
| "js_truthy (JNum n) = (n \<noteq> 0)"
| "js_truthy (JStr s) = (s \<noteq> [])"
| "js_truthy (JArr xs) = True"
| "js_truthy (JObj kvs) = True"

fun js_typeof :: "jsval \<Rightarrow> string" where
  "js_typeof JUndefined = ''undefined''"
| "js_typeof JNull = ''object''"
| "js_typeof (JBool b) = ''boolean''"
| "js_typeof (JNum n) = ''number''"
| "js_typeof (JStr s) = ''string''"
| "js_typeof (JArr xs) = ''object''"
| "js_typeof (JObj kvs) = ''object''"

text \<open>
  Reading one of the properties \<open>value\<close>, \<open>label\<close>, \<open>minLength\<close>, \<open>maxLength\<close>,
  \<open>pattern\<close>: a \<open>TypeError\<close> on \<open>undefined\<close> and \<open>null\<close>, the stored value on an
  object, \<open>undefined\<close> on every other value (none of them has such a property).
\<close>

fun js_prop :: "jsval \<Rightarrow> string \<Rightarrow> jserror + jsval" where
  "js_prop JUndefined k = Inl (TypeError ''Cannot read properties of undefined'')"
| "js_prop JNull k = Inl (TypeError ''Cannot read properties of null'')"
| "js_prop (JObj kvs) k = Inr (case map_of kvs k of None \<Rightarrow> JUndefined | Some v \<Rightarrow> v)"
| "js_prop _ k = Inr JUndefined"

text \<open>The field object of the Airtable schema API, as \<open>mapAirtableField\<close> reads it.\<close>

record choice =
  choice_id :: jsval
  choice_name :: jsval
  choice_color :: jsval

record airtable_options =
  isReversed :: jsval
  choices :: "choice list option"
  maxLength :: jsval
  minLength :: jsval
  pattern :: jsval

record airtable_field =
  af_id :: string
  af_name :: string
  af_description :: jsval
  af_type :: string
  af_options :: "airtable_options option"

record field_option =
  fo_value :: jsval
  fo_label :: jsval
  fo_color :: jsval

record field_validation =
  fv_maxLength :: jsval
  fv_minLength :: jsval
  fv_pattern :: jsval

text \<open>The object \<open>mapAirtableField\<close> returns; \<open>mf_type = None\<close> is \<open>type: null\<close>.\<close>

record mapped_field =
  mf_id :: string
  mf_name :: string
  mf_description :: jsval
  mf_type :: "string option"
  mf_airtableType :: string
  mf_isRequired :: bool
  mf_options :: "field_option list"
  mf_validation :: "field_validation option"

text \<open>The \<open>switch\<close> of \<open>mapAirtableField\<close> (airtableService.js, lines 89-110).\<close>

definition mappedType :: "string \<Rightarrow> string option" where
  "mappedType fieldType =
     (if fieldType = ''singleLineText'' \<or> fieldType = ''email'' \<or> fieldType = ''url''
        then Some ''shortText''
      else if fieldType = ''multilineText'' \<or> fieldType = ''richText''
        then Some ''longText''
      else if fieldType = ''singleSelect'' then Some ''singleSelect''
      else if fieldType = ''multipleSelects'' then Some ''multiSelect''
      else if fieldType = ''multipleAttachments'' then Some ''attachment''
      else None)"

definition mapAirtableField :: "airtable_field \<Rightarrow> mapped_field" where
  "mapAirtableField airtableField =
     (let fieldType = af_type airtableField in
      \<lparr> mf_id = af_id airtableField,
        mf_name = af_name airtableField,
        mf_description =
          (if js_truthy (af_description airtableField) then af_description airtableField
           else JStr []),
        mf_type = mappedType fieldType,
        mf_airtableType = fieldType,
        mf_isRequired =
          (case af_options airtableField of
             None \<Rightarrow> True
           | Some opts \<Rightarrow> \<not> js_truthy (isReversed opts)),
        mf_options =
          (case af_options airtableField of
             None \<Rightarrow> []
           | Some opts \<Rightarrow>
               (case choices opts of
                  None \<Rightarrow> []
                | Some chs \<Rightarrow>
                    map (\<lambda>ch. \<lparr> fo_value = choice_id ch, fo_label = choice_name ch,
                                 fo_color = choice_color ch \<rparr>) chs)),
        mf_validation =
          (case af_options airtableField of
             None \<Rightarrow> None
           | Some opts \<Rightarrow>
               Some \<lparr> fv_maxLength = maxLength opts, fv_minLength = minLength opts,
                      fv_pattern = pattern opts \<rparr>) \<rparr>)"

text \<open>\<open>FormValidator\<close>: \<open>supportedTypes\<close> and \<open>airtableTypeMap\<close> (lines 3-20).\<close>

definition supportedTypes :: "string list" where
  "supportedTypes = [''shortText'', ''longText'', ''singleSelect'', ''multiSelect'', ''attachment'']"

definition airtableTypeMap :: "(string \<times> string) list" where
  "airtableTypeMap =
     [(''singleLineText'', ''shortText''),
      (''email'', ''shortText''),
      (''url'', ''shortText''),
      (''multilineText'', ''longText''),
      (''richText'', ''longText''),
      (''singleSelect'', ''singleSelect''),
      (''multipleSelects'', ''multiSelect''),
      (''multipleAttachments'', ''attachment'')]"

text \<open>A question of the request body, before any validation: every field is any value.\<close>

record question_input =
  qi_questionKey :: jsval
  qi_airtableFieldId :: jsval
  qi_label :: jsval
  qi_type :: jsval
  qi_required :: jsval
  qi_options :: jsval
  qi_validationRules :: jsval

text \<open>The messages pushed on \<open>errors\<close>, one constructor per message template.\<close>

datatype question_error =
    QuestionKeyRequired nat
  | DuplicateQuestionKey nat jsval
  | AirtableFieldIdRequired nat
  | DuplicateAirtableFieldId nat jsval
  | LabelRequired nat
  | TypeNotSupported nat
  | RequiredNotBoolean nat
  | AirtableFieldNotFound nat jsval
  | TypeMismatch nat jsval string
  | OptionsRequired nat
  | OptionsEmpty nat
  | OptionValueRequired nat nat
  | OptionLabelRequired nat nat
  | MinLengthNotNumber nat
  | MaxLengthNotNumber nat
  | PatternNotString nat

record validation_state =
  errors :: "question_error list"
  usedQuestionKeys :: "jsval list"
  usedAirtableIds :: "jsval list"

record validation_result =
  valid :: bool
  result_errors :: "question_error list option"

definition push_error :: "question_error \<Rightarrow> validation_state \<Rightarrow> validation_state" where
  "push_error e st = st\<lparr>errors := errors st @ [e]\<rparr>"

text \<open>The inner \<open>question.options.forEach\<close> (lines 87-94).\<close>

fun validateOptions ::
  "nat \<Rightarrow> nat \<Rightarrow> jsval list \<Rightarrow> validation_state \<Rightarrow> jserror + validation_state" where
  "validateOptions index optIndex [] st = Inr st"
| "validateOptions index optIndex (opt # opts) st =
     (case js_prop opt ''value'' of
        Inl e \<Rightarrow> Inl e
      | Inr v \<Rightarrow>
          (let st1 = (if \<not> js_truthy v \<or> js_typeof v \<noteq> ''string''
                      then push_error (OptionValueRequired index optIndex) st else st) in
           case js_prop opt ''label'' of
             Inl e \<Rightarrow> Inl e
           | Inr l \<Rightarrow>
               (let st2 = (if \<not> js_truthy l \<or> js_typeof l \<noteq> ''string''
                           then push_error (OptionLabelRequired index optIndex) st1 else st1)
                in validateOptions index (Suc optIndex) opts st2)))"

text \<open>The property reads of the \<open>validationRules\<close> block cannot throw: it is truthy.\<close>

definition rule_prop :: "jsval \<Rightarrow> string \<Rightarrow> jsval" where
  "rule_prop v k = (case js_prop v k of Inl e \<Rightarrow> JUndefined | Inr x \<Rightarrow> x)"

text \<open>
  The body of \<open>questions.forEach\<close> in \<open>validateQuestions\<close> (lines 32-113), one
  definition per commented block of the source, in the source's order.
\<close>

definition checkQuestionKey :: "nat \<Rightarrow> question_input \<Rightarrow> validation_state \<Rightarrow> validation_state" where
  "checkQuestionKey index question st =
     (if \<not> js_truthy (qi_questionKey question)
         \<or> js_typeof (qi_questionKey question) \<noteq> ''string''
        then push_error (QuestionKeyRequired index) st
      else if qi_questionKey question \<in> set (usedQuestionKeys st)
        then push_error (DuplicateQuestionKey index (qi_questionKey question)) st
      else st\<lparr>usedQuestionKeys := usedQuestionKeys st @ [qi_questionKey question]\<rparr>)"

definition checkAirtableFieldId :: "nat \<Rightarrow> question_input \<Rightarrow> validation_state \<Rightarrow> validation_state" where
  "checkAirtableFieldId index question st =
     (if \<not> js_truthy (qi_airtableFieldId question)
        then push_error (AirtableFieldIdRequired index) st
      else if qi_airtableFieldId question \<in> set (usedAirtableIds st)
        then push_error (DuplicateAirtableFieldId index (qi_airtableFieldId question)) st
      else st\<lparr>usedAirtableIds := usedAirtableIds st @ [qi_airtableFieldId question]\<rparr>)"

definition checkLabel :: "nat \<Rightarrow> question_input \<Rightarrow> validation_state \<Rightarrow> validation_state" where
  "checkLabel index question st =
     (if \<not> js_truthy (qi_label question) \<or> js_typeof (qi_label question) \<noteq> ''string''
      then push_error (LabelRequired index) st else st)"

definition checkType :: "nat \<Rightarrow> question_input \<Rightarrow> validation_state \<Rightarrow> validation_state" where
  "checkType index question st =
     (if \<not> js_truthy (qi_type question) \<or> qi_type question \<notin> JStr ` set supportedTypes
      then push_error (TypeNotSupported index) st else st)"

definition checkRequired :: "nat \<Rightarrow> question_input \<Rightarrow> validation_state \<Rightarrow> validation_state" where
  "checkRequired index question st =
     (if js_typeof (qi_required question) \<noteq> ''boolean''
      then push_error (RequiredNotBoolean index) st else st)"

text \<open>
  "Validate against Airtable field" (lines 67-77): \<open>find\<close> takes the first field with
  the question's id; \<open>airtableField.type\<close> is a string or \<open>null\<close>, the table lookup a
  string or \<open>undefined\<close>, both compared with \<open>!==\<close>.
\<close>

definition checkAgainstField ::
  "mapped_field list \<Rightarrow> nat \<Rightarrow> question_input \<Rightarrow> validation_state \<Rightarrow> validation_state" where
  "checkAgainstField airtableFields index question st =
     (case find (\<lambda>f. JStr (mf_id f) = qi_airtableFieldId question) airtableFields of
        None \<Rightarrow> push_error (AirtableFieldNotFound index (qi_airtableFieldId question)) st
      | Some airtableField \<Rightarrow>
          if (case mf_type airtableField of None \<Rightarrow> JNull | Some t \<Rightarrow> JStr t)
               \<noteq> qi_type question
          then
            (let mapped = (case map_of airtableTypeMap (mf_airtableType airtableField) of
                             None \<Rightarrow> JUndefined | Some t \<Rightarrow> JStr t) in
             if mapped \<noteq> qi_type question
             then push_error
                    (TypeMismatch index (qi_type question) (mf_airtableType airtableField)) st
             else st)
          else st)"

definition checkOptions ::
  "nat \<Rightarrow> question_input \<Rightarrow> validation_state \<Rightarrow> jserror + validation_state" where
  "checkOptions index question st =
     (if qi_type question = JStr ''singleSelect'' \<or> qi_type question = JStr ''multiSelect''
      then
        (case qi_options question of
           JArr opts \<Rightarrow>
             if length opts = 0 then Inr (push_error (OptionsEmpty index) st)
             else validateOptions index 0 opts st
         | _ \<Rightarrow> Inr (push_error (OptionsRequired index) st))
      else Inr st)"

definition checkValidationRules ::
  "nat \<Rightarrow> question_input \<Rightarrow> validation_state \<Rightarrow> validation_state" where
  "checkValidationRules index question st =
     (if js_truthy (qi_validationRules question)
      then
        (let
           rs = qi_validationRules question;
           st1 = (if rule_prop rs ''minLength'' \<noteq> JUndefined
                      \<and> js_typeof (rule_prop rs ''minLength'') \<noteq> ''number''
                  then push_error (MinLengthNotNumber index) st else st);
           st2 = (if rule_prop rs ''maxLength'' \<noteq> JUndefined
                      \<and> js_typeof (rule_prop rs ''maxLength'') \<noteq> ''number''
                  then push_error (MaxLengthNotNumber index) st1 else st1);
           st3 = (if rule_prop rs ''pattern'' \<noteq> JUndefined
                      \<and> js_typeof (rule_prop rs ''pattern'') \<noteq> ''string''
                  then push_error (PatternNotString index) st2 else st2)
         in st3)
      else st)"

definition validateQuestion ::
  "mapped_field list \<Rightarrow> nat \<Rightarrow> question_input \<Rightarrow> validation_state
   \<Rightarrow> jserror + validation_state" where
  "validateQuestion airtableFields index question st =
     (let
        st1 = checkQuestionKey index question st;
        st2 = checkAirtableFieldId index question st1;
        st3 = checkLabel index question st2;
        st4 = checkType index question st3;
        st5 = checkRequired index question st4;
        st6 = checkAgainstField airtableFields index question st5
      in
        case checkOptions index question st6 of
          Inl e \<Rightarrow> Inl e
        | Inr st7 \<Rightarrow> Inr (checkValidationRules index question st7))"

fun validateEach ::
  "mapped_field list \<Rightarrow> nat \<Rightarrow> question_input list \<Rightarrow> validation_state
   \<Rightarrow> jserror + validation_state" where
  "validateEach airtableFields index [] st = Inr st"
| "validateEach airtableFields index (question # questions) st =
     (case validateQuestion airtableFields index question st of
        Inl e \<Rightarrow> Inl e
      | Inr st' \<Rightarrow> validateEach airtableFields (Suc index) questions st')"

definition validateQuestions ::
  "question_input list \<Rightarrow> mapped_field list \<Rightarrow> jserror + validation_result" where
  "validateQuestions questions airtableFields =
     (case validateEach airtableFields 0 questions
             \<lparr>errors = [], usedQuestionKeys = [], usedAirtableIds = []\<rparr> of
        Inl e \<Rightarrow> Inl e
      | Inr st \<Rightarrow>
          Inr \<lparr> valid = (length (errors st) = 0),
                result_errors = (if length (errors st) > 0 then Some (errors st) else None) \<rparr>)"

section \<open>Webhook signature and handler (webhookSyncService.js, webhookController.js)\<close>

text \<open>
  \<open>Buffer.from(string)\<close> is the UTF-8 encoding. A header value is a string of Latin-1
  code units: one byte for a character below 128, two bytes for any other.
\<close>

definition utf8_bytes :: "char \<Rightarrow> nat list" where
  "utf8_bytes c =
     (let n = (of_char c :: nat) in
      if n < 128 then [n] else [192 + n div 64, 128 + n mod 64])"

definition buffer_from :: "string \<Rightarrow> nat list" where
  "buffer_from s = concat (map utf8_bytes s)"

text \<open>\<open>crypto.timingSafeEqual\<close> throws on buffers of different byte length.\<close>

definition timingSafeEqual :: "nat list \<Rightarrow> nat list \<Rightarrow> jserror + bool" where
  "timingSafeEqual a b =
     (if length a \<noteq> length b
      then Inl (RangeError ''Input buffers must have the same byte length'')
      else Inr (a = b))"

text \<open>
  The secret is read twice: by the service's constructor (\<open>this.webhookSecret\<close>) and by
  the controller on each request (\<open>process.env.WEBHOOK_SECRET\<close>). \<open>None\<close> is an unset
  variable.
\<close>

record webhook_config =
  env_WEBHOOK_SECRET :: "string option"
  service_webhookSecret :: "string option"

text \<open>Truthiness of a value that is a string or \<open>undefined\<close>/\<open>null\<close>.\<close>

fun str_truthy :: "string option \<Rightarrow> bool" where
  "str_truthy None = False"
| "str_truthy (Some s) = (s \<noteq> [])"

text \<open>
  \<open>verifySignature(payload, signature)\<close> (lines 17-32). The HMAC-SHA256 hex digest is
  the parameter \<open>hmac_sha256_hex key payload\<close>. \<open>signature\<close> is the header value,
  \<open>None\<close> when the header is missing: \<open>Buffer.from(undefined)\<close> throws.
\<close>

definition verifySignature ::
  "(string \<Rightarrow> string \<Rightarrow> string) \<Rightarrow> string option \<Rightarrow> string \<Rightarrow> string option
   \<Rightarrow> jserror + bool" where
  "verifySignature hmac_sha256_hex webhookSecret payload signature =
     (case webhookSecret of
        None \<Rightarrow> Inr True
      | Some secret \<Rightarrow>
          if secret = [] then Inr True
          else
            (let expectedSignature = hmac_sha256_hex secret payload in
             case signature of
               None \<Rightarrow>
                 Inl (TypeError ''The first argument must be of type string or an instance of Buffer'')
             | Some sig \<Rightarrow> timingSafeEqual (buffer_from sig) (buffer_from expectedSignature)))"

record 'b request =
  header_signature :: "string option"
  req_body :: 'b

datatype response_body = Success string | Failure string

record http_response =
  http_status :: nat
  http_body :: response_body

text \<open>How the guarded block of the handler ends: falls through, returns, or throws.\<close>

datatype guard_outcome = Continue | Return http_response | Throw jserror

text \<open>
  \<open>handleWebhook(req, res)\<close> (webhookController.js, lines 9-44). \<open>stringify\<close> is
  \<open>JSON.stringify\<close>; \<open>processWebhook\<close> is the service's processing of the body on the
  store \<open>'s\<close>, returning the store it leaves and the error it throws, if any.
\<close>

definition handleWebhook ::
  "(string \<Rightarrow> string \<Rightarrow> string) \<Rightarrow> ('b \<Rightarrow> string) \<Rightarrow> ('b \<Rightarrow> 's \<Rightarrow> jserror option \<times> 's)
   \<Rightarrow> webhook_config \<Rightarrow> 'b request \<Rightarrow> 's \<Rightarrow> http_response \<times> 's" where
  "handleWebhook hmac_sha256_hex stringify processWebhook cfg req s =
     (let
        signature = header_signature req;
        payload = stringify (req_body req);
        guard =
          (if str_truthy (env_WEBHOOK_SECRET cfg)
           then
             (case verifySignature hmac_sha256_hex (service_webhookSecret cfg) payload signature of
                Inl error \<Rightarrow> Throw error
              | Inr isValid \<Rightarrow>
                  if \<not> isValid
                  then Return \<lparr>http_status = 401, http_body = Failure ''Invalid signature''\<rparr>
                  else Continue)
           else Continue)
      in
        case guard of
          Return response \<Rightarrow> (response, s)
        | Throw error \<Rightarrow> (\<lparr>http_status = 200, http_body = Failure (message error)\<rparr>, s)
        | Continue \<Rightarrow>
            (case processWebhook (req_body req) s of
               (Some error, s') \<Rightarrow>
                 (\<lparr>http_status = 200, http_body = Failure (message error)\<rparr>, s')
             | (None, s') \<Rightarrow>
                 (\<lparr>http_status = 200, http_body = Success ''Webhook processed successfully''\<rparr>,
                  s')))"

section \<open>Response store and inbound synchronisation (webhookSyncService.js, models)\<close>

text \<open>
  The documents as the synchronisation code reads and writes them. Dates are clock
  readings in milliseconds; \<open>response_id\<close> is the document's \<open>_id\<close>.
\<close>

record question =
  q_questionKey :: string
  q_airtableFieldId :: string
  q_conditionalRules :: "rules option"

record form =
  form_id :: nat
  form_userId :: nat
  airtableBaseId :: string
  airtableTableId :: string
  form_questions :: "question list"

record user =
  accessToken :: string
  tokenExpiresAt :: nat

datatype response_status = Pending | Submitted | Synced | Failed | Deleted

record answer =
  answer_questionKey :: string
  answer_value :: jsval
  submittedAt :: nat

record sync_status =
  lastSyncedAt :: "nat option"
  syncAttempts :: nat
  syncError :: "string option"

record response =
  response_id :: nat
  formId :: nat
  userId :: nat
  airtableRecordId :: string
  status :: response_status
  answers :: "answer list"
  syncStatus :: sync_status

text \<open>The body of a record read from the external API; \<open>fields\<close> may be missing.\<close>

record airtable_record =
  ar_fields :: "(string \<rightharpoonup> jsval) option"

text \<open>One page of the external list call: \<open>records\<close> (their ids) and \<open>offset\<close>.\<close>

record page =
  page_records :: "string list option"
  page_offset :: "string option"

datatype store_op = FindOne string | Save response

text \<open>
  Everything outside the process, as the code meets it. Each call either throws or
  returns: \<open>formFindOne\<close> is \<open>Form.findOne\<close> on an active form bound to a base and
  table, \<open>formFindById\<close> and \<open>userFindById\<close> are the lookups by id, \<open>getRecord\<close> is
  \<open>AirtableService.getRecord\<close>, \<open>listRecords\<close> the paginated GET of a table with its
  \<open>offset\<close> parameter, \<open>pushResponse\<close> is \<open>AirtableService.syncResponseToAirtable\<close>
  (the outbound push) on the response store. \<open>storeFault\<close> is an operation on the
  Response collection rejected by the persistence layer (validation, outage). \<open>now\<close>
  is \<open>new Date()\<close>, one reading for a call.
\<close>

record sync_env =
  formFindOne :: "string \<Rightarrow> string \<Rightarrow> jserror + form option"
  formFindById :: "nat \<Rightarrow> jserror + form option"
  userFindById :: "nat \<Rightarrow> jserror + user option"
  getRecord :: "string \<Rightarrow> string \<Rightarrow> string \<Rightarrow> string \<Rightarrow> jserror + airtable_record option"
  listRecords :: "string \<Rightarrow> string \<Rightarrow> string \<Rightarrow> string option \<Rightarrow> jserror + page"
  pushResponse :: "nat \<Rightarrow> response list \<Rightarrow> jserror option \<times> response list"
  storeFault :: "store_op \<Rightarrow> jserror option"
  now :: nat

text \<open>\<open>user.isTokenExpired()\<close>: \<open>this.tokenExpiresAt < new Date()\<close>.\<close>

definition isTokenExpired :: "sync_env \<Rightarrow> user \<Rightarrow> bool" where
  "isTokenExpired env u = (tokenExpiresAt u < now env)"

text \<open>\<open>Response.findOne({ airtableRecordId })\<close>.\<close>

definition Response_findOne ::
  "sync_env \<Rightarrow> response list \<Rightarrow> string \<Rightarrow> jserror + response option" where
  "Response_findOne env db recordId =
     (case storeFault env (FindOne recordId) of
        Some e \<Rightarrow> Inl e
      | None \<Rightarrow> Inr (find (\<lambda>r. airtableRecordId r = recordId) db))"

text \<open>
  \<open>response.save()\<close> of a document read from the store replaces the stored document
  with the same \<open>_id\<close>; of a new document it inserts, under the unique index on
  \<open>airtableRecordId\<close> (Form.js, line 422), with a fresh \<open>_id\<close>.
\<close>

definition fresh_id :: "response list \<Rightarrow> nat" where
  "fresh_id db = Suc (fold max (map response_id db) 0)"

definition save_existing :: "sync_env \<Rightarrow> response list \<Rightarrow> response \<Rightarrow> jserror + response list" where
  "save_existing env db doc =
     (case storeFault env (Save doc) of
        Some e \<Rightarrow> Inl e
      | None \<Rightarrow> Inr (map (\<lambda>r. if response_id r = response_id doc then doc else r) db))"

definition save_new :: "sync_env \<Rightarrow> response list \<Rightarrow> response \<Rightarrow> jserror + response list" where
  "save_new env db doc =
     (case storeFault env (Save doc) of
        Some e \<Rightarrow> Inl e
      | None \<Rightarrow>
          if list_ex (\<lambda>r. airtableRecordId r = airtableRecordId doc) db
          then Inl (Error ''E11000 duplicate key error'')
          else Inr (db @ [doc\<lparr>response_id := fresh_id db\<rparr>]))"

text \<open>
  "Convert Airtable fields to our response format" (lines 177-187): a question whose
  field is absent from the record gives no answer. Reading \<open>airtableRecord.fields[...]\<close>
  throws when \<open>fields\<close> is missing and there is a question to read it for.
\<close>

definition buildAnswers ::
  "nat \<Rightarrow> question list \<Rightarrow> (string \<rightharpoonup> jsval) option \<Rightarrow> jserror + answer list" where
  "buildAnswers t qs recordFields =
     (case qs of
        [] \<Rightarrow> Inr []
      | _ \<Rightarrow>
          (case recordFields of
             None \<Rightarrow> Inl (TypeError ''Cannot read properties of undefined'')
           | Some f \<Rightarrow>
               Inr (List.map_filter
                      (\<lambda>q. case f (q_airtableFieldId q) of
                             None \<Rightarrow> None
                           | Some fieldValue \<Rightarrow>
                               Some \<lparr> answer_questionKey = q_questionKey q,
                                      answer_value = fieldValue,
                                      submittedAt = t \<rparr>) qs)))"

text \<open>
  "Find or create response" and \<open>response.save()\<close> (lines 189-213): an existing
  response has its answers overwritten, its status set and its attempts incremented; a
  missing one is created with one attempt.
\<close>

definition findOrCreateAndSave ::
  "sync_env \<Rightarrow> form \<Rightarrow> string \<Rightarrow> answer list \<Rightarrow> response list \<Rightarrow> jserror + response list" where
  "findOrCreateAndSave env form recordId newAnswers db =
     (case Response_findOne env db recordId of
        Inl e \<Rightarrow> Inl e
      | Inr (Some response) \<Rightarrow>
          save_existing env db
            (response
               \<lparr> answers := newAnswers,
                 status := Synced,
                 syncStatus := (syncStatus response)
                   \<lparr> lastSyncedAt := Some (now env),
                     syncAttempts := syncAttempts (syncStatus response) + 1 \<rparr> \<rparr>)
      | Inr None \<Rightarrow>
          save_new env db
            \<lparr> response_id = 0,
              formId = form_id form,
              userId = form_userId form,
              airtableRecordId = recordId,
              status = Synced,
              answers = newAnswers,
              syncStatus =
                \<lparr> lastSyncedAt = Some (now env), syncAttempts = 1, syncError = None \<rparr> \<rparr>)"

text \<open>
  The \<open>try\<close> block of \<open>syncSingleRecord\<close> (lines 143-214): \<open>Inl\<close> is a throw, \<open>Inr\<close> the
  store at normal completion, the three early returns included.
\<close>

definition syncTry ::
  "sync_env \<Rightarrow> string \<Rightarrow> string \<Rightarrow> string \<Rightarrow> response list \<Rightarrow> jserror + response list" where
  "syncTry env baseId tableId recordId db =
     (case formFindOne env baseId tableId of
        Inl e \<Rightarrow> Inl e
      | Inr None \<Rightarrow> Inr db
      | Inr (Some form) \<Rightarrow>
          (case userFindById env (form_userId form) of
             Inl e \<Rightarrow> Inl e
           | Inr None \<Rightarrow> Inr db
           | Inr (Some user) \<Rightarrow>
               if isTokenExpired env user then Inr db
               else
                 (case getRecord env (accessToken user) baseId tableId recordId of
                    Inl e \<Rightarrow> Inl e
                  | Inr None \<Rightarrow> Inr db
                  | Inr (Some airtableRecord) \<Rightarrow>
                      (case buildAnswers (now env) (form_questions form)
                              (ar_fields airtableRecord) of
                         Inl e \<Rightarrow> Inl e
                       | Inr newAnswers \<Rightarrow>
                           findOrCreateAndSave env form recordId newAnswers db))))"

text \<open>The inner \<open>try\<close> of the \<open>catch\<close> block (lines 220-227).\<close>

definition syncCatch ::
  "sync_env \<Rightarrow> string \<Rightarrow> jserror \<Rightarrow> response list \<Rightarrow> jserror + response list" where
  "syncCatch env recordId error db =
     (case Response_findOne env db recordId of
        Inl e \<Rightarrow> Inl e
      | Inr None \<Rightarrow> Inr db
      | Inr (Some response) \<Rightarrow>
          save_existing env db
            (response
               \<lparr> status := Failed,
                 syncStatus := (syncStatus response)
                   \<lparr> syncError := Some (message error),
                     syncAttempts := syncAttempts (syncStatus response) + 1 \<rparr> \<rparr>))"

text \<open>
  \<open>syncSingleRecord\<close> (lines 142-232): the outer \<open>catch\<close> runs \<open>syncCatch\<close>, whose own
  throw is caught and logged.
\<close>

definition syncSingleRecord ::
  "sync_env \<Rightarrow> string \<Rightarrow> string \<Rightarrow> string \<Rightarrow> response list \<Rightarrow> jserror + response list" where
  "syncSingleRecord env baseId tableId recordId db =
     (case syncTry env baseId tableId recordId db of
        Inr db' \<Rightarrow> Inr db'
      | Inl error \<Rightarrow>
          (case syncCatch env recordId error db of
             Inr db' \<Rightarrow> Inr db'
           | Inl dbError \<Rightarrow> Inr db))"

subsection \<open>Full resynchronisation\<close>

text \<open>
  The state of a run of \<open>syncAllRecordsForForm\<close>: the store, the two counters, and the
  \<open>offset\<close> parameter of every GET issued so far, in order.
\<close>

record run_state =
  run_db :: "response list"
  run_syncedCount :: nat
  run_errorCount :: nat
  run_requests :: "string option list"

record sync_result =
  success :: bool
  syncedCount :: nat
  errorCount :: nat

text \<open>The \<open>for (const record of records)\<close> loop (lines 271-283).\<close>

fun syncRecords :: "sync_env \<Rightarrow> form \<Rightarrow> string list \<Rightarrow> run_state \<Rightarrow> run_state" where
  "syncRecords env form [] st = st"
| "syncRecords env form (recordId # records) st =
     (case syncSingleRecord env (airtableBaseId form) (airtableTableId form) recordId (run_db st) of
        Inr db' \<Rightarrow>
          syncRecords env form records
            (st\<lparr>run_db := db', run_syncedCount := run_syncedCount st + 1\<rparr>)
      | Inl recordError \<Rightarrow>
          syncRecords env form records (st\<lparr>run_errorCount := run_errorCount st + 1\<rparr>))"

text \<open>
  The \<open>do ... while (offset)\<close> loop (lines 255-295). \<open>params\<close> carries the offset when
  it is truthy. A throw of the GET, or of iterating a missing \<open>records\<close>, is the
  page-level failure: count it and \<open>break\<close>. The loop may run forever on an API that
  never stops returning offsets: the value is then \<open>None\<close>.
\<close>

partial_function (option) pageLoop ::
  "sync_env \<Rightarrow> form \<Rightarrow> user \<Rightarrow> string option \<Rightarrow> run_state \<Rightarrow> run_state option" where
  "pageLoop env form user offset st =
     (let params = (if str_truthy offset then offset else None);
          st1 = st\<lparr>run_requests := run_requests st @ [params]\<rparr>
      in
        case listRecords env (accessToken user) (airtableBaseId form) (airtableTableId form)
               params of
          Inl batchError \<Rightarrow> Some (st1\<lparr>run_errorCount := run_errorCount st1 + 1\<rparr>)
        | Inr page \<Rightarrow>
            (case page_records page of
               None \<Rightarrow> Some (st1\<lparr>run_errorCount := run_errorCount st1 + 1\<rparr>)
             | Some records \<Rightarrow>
                 (let st2 = syncRecords env form records st1;
                      nextOffset = page_offset page
                  in if str_truthy nextOffset
                     then pageLoop env form user nextOffset st2
                     else Some st2)))"

text \<open>\<open>syncAllRecordsForForm(formId)\<close> (lines 237-309).\<close>

definition syncAllRecordsForForm ::
  "sync_env \<Rightarrow> nat \<Rightarrow> response list \<Rightarrow> (jserror + sync_result \<times> run_state) option" where
  "syncAllRecordsForForm env fid db =
     (case formFindById env fid of
        Inl e \<Rightarrow> Some (Inl e)
      | Inr None \<Rightarrow> Some (Inl (Error ''Form not found''))
      | Inr (Some form) \<Rightarrow>
          (case userFindById env (form_userId form) of
             Inl e \<Rightarrow> Some (Inl e)
           | Inr None \<Rightarrow> Some (Inl (Error ''User token expired''))
           | Inr (Some user) \<Rightarrow>
               if isTokenExpired env user then Some (Inl (Error ''User token expired''))
               else
                 (case pageLoop env form user None
                         \<lparr>run_db = db, run_syncedCount = 0, run_errorCount = 0,
                           run_requests = []\<rparr> of
                    None \<Rightarrow> None
                  | Some st \<Rightarrow>
                      Some (Inr (\<lparr> success = True,
                                    syncedCount = run_syncedCount st,
                                    errorCount = run_errorCount st \<rparr>, st)))))"

subsection \<open>Retry of failed synchronisations\<close>







section \<open>Dependency graph and cycle detection (src/services/conditionalLogic.js)\<close>

text \<open>
  The graph is the object that \<open>createDependencyGraph\<close> fills: one entry per question
  key, in insertion order, each with the keys it depends on and the keys that depend on
  it. Question keys are taken to be ordinary property names, so that a lookup finds an
  entry exactly when one was stored.
\<close>

record graph_node =
  dependsOn :: "string list"
  dependentBy :: "string list"

type_synonym graph = "(string \<times> graph_node) list"




definition dependents :: "graph \<Rightarrow> string \<Rightarrow> string list" where
  "dependents graph node = (case map_of graph node of None \<Rightarrow> [] | Some n \<Rightarrow> dependentBy n)"

text \<open>
  The state that the closure \<open>dfs\<close> of \<open>detectCircularDependencies\<close> shares with its
  caller: the nodes marked visited, in the order they were marked, the recursion stack
  and the paths pushed so far.
\<close>

record dfs_state =
  visited :: "string list"
  recursionStack :: "string \<Rightarrow> bool"
  cycles :: "string list list"

definition enter :: "string \<Rightarrow> dfs_state \<Rightarrow> dfs_state" where
  "enter node s =
     s\<lparr>visited := visited s @ [node], recursionStack := (recursionStack s)(node := True)\<rparr>"

definition leave :: "string \<Rightarrow> dfs_state \<Rightarrow> dfs_state" where
  "leave node s = s\<lparr>recursionStack := (recursionStack s)(node := False)\<rparr>"

definition pushCycle :: "string list \<Rightarrow> dfs_state \<Rightarrow> dfs_state" where
  "pushCycle newPath s = s\<lparr>cycles := cycles s @ [newPath]\<rparr>"

text \<open>
  \<open>dfs\<close> and the \<open>forEach\<close> over the dependents of its node. \<open>dependents\<close> is
  \<open>graph[node]?.dependentBy || []\<close>.
\<close>

function dfs :: "graph \<Rightarrow> string \<Rightarrow> string list \<Rightarrow> dfs_state \<Rightarrow> dfs_state"
  and dfs_forEach :: "graph \<Rightarrow> string list \<Rightarrow> string list \<Rightarrow> dfs_state \<Rightarrow> dfs_state"
where
  "dfs graph node path s =
     (if node \<notin> set (visited s)
      then leave node (dfs_forEach graph (dependents graph node) path (enter node s))
      else leave node s)"
| "dfs_forEach graph [] path s = s"
| "dfs_forEach graph (dep # dependencies) path s =
     dfs_forEach graph dependencies path
       (if dep \<notin> set (visited s) then dfs graph dep (path @ [dep]) s
        else if recursionStack s dep then pushCycle (path @ [dep]) s
        else s)"
  by pat_completeness auto

lemma visited_simps [simp]:
  "visited (enter n s) = visited s @ [n]"
  "visited (leave n s) = visited s"
  "visited (pushCycle p s) = visited s"
  by (simp_all add: enter_def leave_def pushCycle_def)

lemma dfs_visited_mono_dom:
  "dfs_dfs_forEach_dom (Inl (graph, node, path, s)) \<Longrightarrow>
     set (visited s) \<subseteq> set (visited (dfs graph node path s))"
  "dfs_dfs_forEach_dom (Inr (graph, deps, path, s)) \<Longrightarrow>
     set (visited s) \<subseteq> set (visited (dfs_forEach graph deps path s))"
proof (induct graph node path s and graph deps path s rule: dfs_dfs_forEach.pinduct)
  case (1 graph node path s)
  then show ?case by (auto simp: dfs.psimps)
next
  case (2 graph path s)
  then show ?case by (simp add: dfs_forEach.psimps)
next
  case (3 graph dep dependencies path s)
  then show ?case
    by (auto simp: dfs_forEach.psimps split: if_splits)
qed

definition graph_nodes :: "graph \<Rightarrow> string set" where
  "graph_nodes graph = set (map fst graph) \<union> (\<Union>n \<in> set (map snd graph). set (dependentBy n))"

lemma finite_graph_nodes [simp]: "finite (graph_nodes g)"
  by (simp add: graph_nodes_def)

lemma dependents_nodes: "set (dependents g n) \<subseteq> graph_nodes g"
proof (cases "map_of g n")
  case None
  then show ?thesis by (simp add: dependents_def)
next
  case (Some nd)
  then have "nd \<in> set (map snd g)"
    by (metis map_of_SomeD set_zip_rightD zip_map_fst_snd)
  with Some show ?thesis by (auto simp: dependents_def graph_nodes_def)
qed

termination dfs
proof (relation "measures
    [case_sum (\<lambda>(g, node, path, s). card ((graph_nodes g \<union> {node}) - set (visited s)))
              (\<lambda>(g, deps, path, s). card ((graph_nodes g \<union> set deps) - set (visited s))),
     case_sum (\<lambda>_. 0) (\<lambda>_. 1),
     case_sum (\<lambda>_. 0) (\<lambda>(g, deps, path, s). length deps)]", goal_cases)
  case 1
  then show ?case by simp
next
  case (2 graph node path s)
  have "(graph_nodes graph \<union> set (dependents graph node)) - set (visited (enter node s))
        \<subset> (graph_nodes graph \<union> {node}) - set (visited s)"
    using 2 dependents_nodes[of graph node] by auto
  then have "card ((graph_nodes graph \<union> set (dependents graph node)) - set (visited (enter node s)))
        < card ((graph_nodes graph \<union> {node}) - set (visited s))"
    by (intro psubset_card_mono) auto
  then show ?case by simp
next
  case (3 graph dep dependencies path s)
  have "card ((graph_nodes graph \<union> {dep}) - set (visited s))
        \<le> card ((graph_nodes graph \<union> set (dep # dependencies)) - set (visited s))"
    by (intro card_mono) auto
  then show ?case by auto
next
  case (4 graph dep dependencies path s)
  let ?s' = "(if dep \<notin> set (visited s) then dfs graph dep (path @ [dep]) s
        else if recursionStack s dep then pushCycle (path @ [dep]) s
        else s)"
  have "set (visited s) \<subseteq> set (visited ?s')"
    using 4 dfs_visited_mono_dom(1) by auto
  then have "card ((graph_nodes graph \<union> set dependencies) - set (visited ?s'))
        \<le> card ((graph_nodes graph \<union> set (dep # dependencies)) - set (visited s))"
    by (intro card_mono) auto
  then show ?case by auto
qed






section \<open>Rule evaluation: proofs\<close>

text \<open>
  Built-ins for running examples: on two strings \<open>==\<close> is equality of the strings,
  \<open>includes\<close> on an array of strings is membership and on a string the substring
  test; the examples apply them to strings only. \<open>parseFloat\<close> of a number is that
  number.
\<close>

definition example_builtins :: js_builtins where
  "example_builtins =
     \<lparr> loose_equals = (\<lambda>a b. a = b),
       array_includes = (\<lambda>xs v. v \<in> set xs),
       string_includes =
         (\<lambda>s v. case v of
                  JStr t \<Rightarrow> Some (list_ex (\<lambda>i. take (length t) (drop i s) = t)
                                     [0..<Suc (length s)])
                | _ \<Rightarrow> Some False),
       parse_float = (\<lambda>v. case v of JNum n \<Rightarrow> Some (Finite n) | _ \<Rightarrow> None) \<rparr>"


text \<open>
  C3. \<open>shouldShowQuestion\<close> is true when the rule is absent, has no condition list or
  has an empty one. With \<open>logic = AND\<close> it is true iff every condition evaluates to
  true. With \<open>logic = OR\<close> and at least one condition (the empty list being the case
  above) it is true iff some condition evaluates to true.
\<close>

theorem shouldShowQuestion_logic:
  "shouldShowQuestion B None A
   \<and> (conditions r = None \<or> conditions r = Some [] \<longrightarrow> shouldShowQuestion B (Some r) A)
   \<and> (logic r = ''AND'' \<and> conditions r = Some cs \<longrightarrow>
        shouldShowQuestion B (Some r) A = (\<forall>c \<in> set cs. evaluateCondition B A c))
   \<and> (logic r = ''OR'' \<and> conditions r = Some cs \<and> cs \<noteq> [] \<longrightarrow>
        shouldShowQuestion B (Some r) A = (\<exists>c \<in> set cs. evaluateCondition B A c))"
  by (auto simp: shouldShowQuestion_def list_all_iff list_ex_iff)


theorem shouldShowQuestion_logic_witness:
  "shouldShowQuestion example_builtins
      (Some \<lparr>logic = ''AND'', conditions = Some []\<rparr>) Map.empty
   \<and> shouldShowQuestion example_builtins
        (Some \<lparr>logic = ''AND'', conditions = Some
           [\<lparr>questionKey = ''plan'', operator = ''equals'', cvalue = JStr ''pro''\<rparr>,
            \<lparr>questionKey = ''name'', operator = ''equals'', cvalue = JStr ''A''\<rparr>]\<rparr>)
        [''plan'' \<mapsto> JStr ''pro'', ''name'' \<mapsto> JStr ''B'']
      = False
   \<and> shouldShowQuestion example_builtins
        (Some \<lparr>logic = ''OR'', conditions = Some
           [\<lparr>questionKey = ''plan'', operator = ''equals'', cvalue = JStr ''pro''\<rparr>,
            \<lparr>questionKey = ''name'', operator = ''equals'', cvalue = JStr ''A''\<rparr>]\<rparr>)
        [''plan'' \<mapsto> JStr ''pro'', ''name'' \<mapsto> JStr ''B'']
      = True"
proof -
  let ?c1 = "\<lparr>questionKey = ''plan'', operator = ''equals'', cvalue = JStr ''pro''\<rparr>"
  let ?c2 = "\<lparr>questionKey = ''name'', operator = ''equals'', cvalue = JStr ''A''\<rparr>"
  let ?A = "[''plan'' \<mapsto> JStr ''pro'', ''name'' \<mapsto> JStr ''B'']"
  have e1: "evaluateCondition example_builtins ?A ?c1"
    by (simp add: evaluateCondition_def js_get_def operators_def op_equals_def
          example_builtins_def)
  have e2: "\<not> evaluateCondition example_builtins ?A ?c2"
    by (simp add: evaluateCondition_def js_get_def operators_def op_equals_def
          example_builtins_def)
  show ?thesis
    using shouldShowQuestion_logic
            [of example_builtins Map.empty "\<lparr>logic = ''AND'', conditions = Some []\<rparr>" "[]"]
          shouldShowQuestion_logic
            [of example_builtins ?A "\<lparr>logic = ''AND'', conditions = Some [?c1, ?c2]\<rparr>"
                "[?c1, ?c2]"]
          shouldShowQuestion_logic
            [of example_builtins ?A "\<lparr>logic = ''OR'', conditions = Some [?c1, ?c2]\<rparr>"
                "[?c1, ?c2]"]
          e1 e2
    by simp
qed


section \<open>Field mapping and rejection of unsupported fields: proofs\<close>

lemma airtableTypeMap_mappedType: "map_of airtableTypeMap t = mappedType t"
  by (simp add: airtableTypeMap_def mappedType_def)

definition nerr :: "validation_state \<Rightarrow> nat" where
  "nerr st = length (errors st)"

lemma nerr_push [simp]: "nerr (push_error e st) = Suc (nerr st)"
  by (simp add: nerr_def push_error_def)

lemma nerr_upd [simp]:
  "nerr (st\<lparr>usedQuestionKeys := ks\<rparr>) = nerr st"
  "nerr (st\<lparr>usedAirtableIds := is\<rparr>) = nerr st"
  by (simp_all add: nerr_def)

lemma validateOptions_errors_mono:
  "validateOptions index optIndex opts st = Inr st' \<Longrightarrow> nerr st \<le> nerr st'"
proof (induction opts arbitrary: optIndex st)
  case Nil
  then show ?case by simp
next
  case (Cons opt opts)
  then show ?case
    by (fastforce simp: Let_def split: sum.splits if_splits dest!: Cons.IH)
qed

lemma check_mono:
  "nerr st \<le> nerr (checkQuestionKey i q st)"
  "nerr st \<le> nerr (checkAirtableFieldId i q st)"
  "nerr st \<le> nerr (checkLabel i q st)"
  "nerr st \<le> nerr (checkType i q st)"
  "nerr st \<le> nerr (checkRequired i q st)"
  "nerr st \<le> nerr (checkAgainstField fs i q st)"
  "nerr st \<le> nerr (checkValidationRules i q st)"
  by (simp_all add: checkQuestionKey_def checkAirtableFieldId_def checkLabel_def checkType_def
        checkRequired_def checkAgainstField_def checkValidationRules_def Let_def
        split: option.splits)

lemma checkOptions_mono: "checkOptions i q st = Inr st' \<Longrightarrow> nerr st \<le> nerr st'"
  by (auto simp: checkOptions_def split: if_splits jsval.splits dest: validateOptions_errors_mono)

lemma validateQuestion_errors_mono:
  assumes "validateQuestion fs i q st = Inr st'"
  shows "nerr st \<le> nerr st'"
proof -
  let ?s5 = "checkRequired i q (checkType i q (checkLabel i q
               (checkAirtableFieldId i q (checkQuestionKey i q st))))"
  let ?s6 = "checkAgainstField fs i q ?s5"
  from assms obtain st7 where o: "checkOptions i q ?s6 = Inr st7"
    and r: "st' = checkValidationRules i q st7"
    by (auto simp: validateQuestion_def Let_def split: sum.splits)
  have "nerr st \<le> nerr ?s5"
    by (meson check_mono order_trans)
  also have "\<dots> \<le> nerr ?s6" by (rule check_mono)
  also have "\<dots> \<le> nerr st7" using o by (rule checkOptions_mono)
  also have "\<dots> \<le> nerr st'" unfolding r by (rule check_mono)
  finally show ?thesis .
qed

text \<open>
  A question bound to a field whose type is the unsupported marker always gets an error:
  a falsy \<open>question.type\<close> fails the type check, and any other \<open>question.type\<close> differs
  from both \<open>null\<close> and the \<open>undefined\<close> the type table returns.
\<close>

lemma unsupported_adds_error:
  assumes f: "find (\<lambda>f. JStr (mf_id f) = qi_airtableFieldId q) fs = Some fld"
    and t: "mf_type fld = None" and m: "mappedType (mf_airtableType fld) = None"
  shows "nerr st < nerr (checkAgainstField fs i q (checkRequired i q (checkType i q st)))"
proof (cases "js_truthy (qi_type q)")
  case True
  then have "qi_type q \<noteq> JNull" "qi_type q \<noteq> JUndefined" by auto
  then have "nerr (checkAgainstField fs i q s) = Suc (nerr s)" for s
    using f t m by (simp add: checkAgainstField_def airtableTypeMap_mappedType)
  moreover have "nerr st \<le> nerr (checkRequired i q (checkType i q st))"
    by (meson check_mono order_trans)
  ultimately show ?thesis by simp
next
  case False
  then have "nerr (checkType i q st) = Suc (nerr st)"
    by (simp add: checkType_def)
  moreover have "nerr (checkType i q st)
      \<le> nerr (checkAgainstField fs i q (checkRequired i q (checkType i q st)))"
    by (meson check_mono order_trans)
  ultimately show ?thesis by simp
qed

lemma validateQuestion_unsupported:
  assumes "validateQuestion fs i q st = Inr st'"
    and f: "find (\<lambda>f. JStr (mf_id f) = qi_airtableFieldId q) fs = Some fld"
    and t: "mf_type fld = None" and m: "mappedType (mf_airtableType fld) = None"
  shows "nerr st < nerr st'"
proof -
  let ?s3 = "checkLabel i q (checkAirtableFieldId i q (checkQuestionKey i q st))"
  let ?s6 = "checkAgainstField fs i q (checkRequired i q (checkType i q ?s3))"
  from assms(1) obtain st7 where o: "checkOptions i q ?s6 = Inr st7"
    and r: "st' = checkValidationRules i q st7"
    by (auto simp: validateQuestion_def Let_def split: sum.splits)
  have "nerr st \<le> nerr ?s3"
    by (meson check_mono order_trans)
  also have "\<dots> < nerr ?s6" using f t m by (rule unsupported_adds_error)
  also have "\<dots> \<le> nerr st7" using o by (rule checkOptions_mono)
  also have "\<dots> \<le> nerr st'" unfolding r by (rule check_mono)
  finally show ?thesis .
qed

lemma validateEach_mono:
  "validateEach fs i qs st = Inr st' \<Longrightarrow> nerr st \<le> nerr st'"
proof (induction qs arbitrary: i st)
  case Nil
  then show ?case by simp
next
  case (Cons q qs)
  then show ?case
    by (auto split: sum.splits dest!: validateQuestion_errors_mono Cons.IH)
qed

lemma validateEach_unsupported:
  assumes "validateEach fs i qs st = Inr st'" and "k < length qs"
    and "find (\<lambda>f. JStr (mf_id f) = qi_airtableFieldId (qs ! k)) fs = Some fld"
    and "mf_type fld = None" and "mappedType (mf_airtableType fld) = None"
  shows "nerr st < nerr st'"
  using assms
proof (induction qs arbitrary: i st k)
  case Nil
  then show ?case by simp
next
  case (Cons q qs)
  from Cons.prems(1) obtain s1 where s1: "validateQuestion fs i q st = Inr s1"
    and rest: "validateEach fs (Suc i) qs s1 = Inr st'"
    by (auto split: sum.splits)
  show ?case
  proof (cases k)
    case 0
    with Cons.prems have "nerr st < nerr s1"
      using validateQuestion_unsupported[OF s1] by simp
    with validateEach_mono[OF rest] show ?thesis by simp
  next
    case (Suc j)
    with Cons.prems have "nerr s1 < nerr st'"
      using Cons.IH[OF rest, of j] by simp
    with validateQuestion_errors_mono[OF s1] show ?thesis by simp
  qed
qed

lemma mapped_field_type:
  "fld \<in> set (map mapAirtableField raw) \<Longrightarrow> mf_type fld = mappedType (mf_airtableType fld)"
  by (auto simp: mapAirtableField_def Let_def)

lemma validateQuestions_rejects_unsupported:
  assumes k: "k < length questions"
    and f: "find (\<lambda>f. JStr (mf_id f) = qi_airtableFieldId (questions ! k))
              (map mapAirtableField raw) = Some fld"
    and t: "mf_type fld = None"
    and r: "validateQuestions questions (map mapAirtableField raw) = Inr r"
  shows "\<not> valid r"
proof -
  let ?init = "\<lparr>errors = [], usedQuestionKeys = [], usedAirtableIds = []\<rparr>"
  from f have "fld \<in> set (map mapAirtableField raw)"
    by (metis find_Some_iff nth_mem)
  with t have m: "mappedType (mf_airtableType fld) = None"
    using mapped_field_type by metis
  from r obtain st where st: "validateEach (map mapAirtableField raw) 0 questions ?init = Inr st"
    and rr: "r = \<lparr> valid = (length (errors st) = 0),
                   result_errors = (if length (errors st) > 0 then Some (errors st) else None) \<rparr>"
    by (auto simp: validateQuestions_def split: sum.splits)
  from validateEach_unsupported[OF st k f t m] have "0 < length (errors st)"
    by (simp add: nerr_def)
  with rr show ?thesis by simp
qed

text \<open>
  C9. The mapper assigns the internal type by the fixed table (the same table
  \<open>FormValidator.airtableTypeMap\<close> holds) and the unsupported marker \<open>null\<close> to every
  other external type; \<open>validateQuestions\<close> never accepts a question list in which some
  question is bound to a field carrying that marker.
\<close>

theorem field_type_table_and_rejection:
  "mf_type (mapAirtableField fld) =
     (if af_type fld \<in> {''singleLineText'', ''email'', ''url''} then Some ''shortText''
      else if af_type fld \<in> {''multilineText'', ''richText''} then Some ''longText''
      else if af_type fld = ''singleSelect'' then Some ''singleSelect''
      else if af_type fld = ''multipleSelects'' then Some ''multiSelect''
      else if af_type fld = ''multipleAttachments'' then Some ''attachment''
      else None)
   \<and> map_of airtableTypeMap (af_type fld) = mf_type (mapAirtableField fld)
   \<and> (k < length questions
        \<and> find (\<lambda>f. JStr (mf_id f) = qi_airtableFieldId (questions ! k))
              (map mapAirtableField raw) = Some bound
        \<and> mf_type bound = None
        \<and> validateQuestions questions (map mapAirtableField raw) = Inr r
      \<longrightarrow> \<not> valid r)"
proof (intro conjI impI)
  show "mf_type (mapAirtableField fld) =
     (if af_type fld \<in> {''singleLineText'', ''email'', ''url''} then Some ''shortText''
      else if af_type fld \<in> {''multilineText'', ''richText''} then Some ''longText''
      else if af_type fld = ''singleSelect'' then Some ''singleSelect''
      else if af_type fld = ''multipleSelects'' then Some ''multiSelect''
      else if af_type fld = ''multipleAttachments'' then Some ''attachment''
      else None)"
    by (simp add: mapAirtableField_def mappedType_def Let_def)
  show "map_of airtableTypeMap (af_type fld) = mf_type (mapAirtableField fld)"
    by (simp add: airtableTypeMap_mappedType mapAirtableField_def Let_def)
next
  assume "k < length questions
        \<and> find (\<lambda>f. JStr (mf_id f) = qi_airtableFieldId (questions ! k))
              (map mapAirtableField raw) = Some bound
        \<and> mf_type bound = None
        \<and> validateQuestions questions (map mapAirtableField raw) = Inr r"
  then show "\<not> valid r"
    using validateQuestions_rejects_unsupported by blast
qed

theorem field_type_table_and_rejection_witness:
  "mf_type (mapAirtableField
      \<lparr>af_id = ''fldCount'', af_name = ''Count'', af_description = JUndefined,
        af_type = ''number'', af_options = None\<rparr>) = None
   \<and> mf_type (mapAirtableField
      \<lparr>af_id = ''fldMail'', af_name = ''Mail'', af_description = JUndefined,
        af_type = ''email'', af_options = None\<rparr>) = Some ''shortText''
   \<and> validateQuestions
        [\<lparr>qi_questionKey = JStr ''count'', qi_airtableFieldId = JStr ''fldCount'',
          qi_label = JStr ''Count'', qi_type = JStr ''shortText'', qi_required = JBool False,
          qi_options = JUndefined, qi_validationRules = JUndefined\<rparr>]
        (map mapAirtableField
          [\<lparr>af_id = ''fldCount'', af_name = ''Count'', af_description = JUndefined,
            af_type = ''number'', af_options = None\<rparr>])
      = Inr \<lparr>valid = False,
             result_errors = Some [TypeMismatch 0 (JStr ''shortText'') ''number'']\<rparr>"
proof -
  let ?f = "\<lparr>af_id = ''fldCount'', af_name = ''Count'', af_description = JUndefined,
              af_type = ''number'', af_options = None\<rparr>"
  let ?m = "\<lparr>af_id = ''fldMail'', af_name = ''Mail'', af_description = JUndefined,
              af_type = ''email'', af_options = None\<rparr>"
  let ?q = "\<lparr>qi_questionKey = JStr ''count'', qi_airtableFieldId = JStr ''fldCount'',
              qi_label = JStr ''Count'', qi_type = JStr ''shortText'', qi_required = JBool False,
              qi_options = JUndefined, qi_validationRules = JUndefined\<rparr>"
  let ?r = "\<lparr>valid = False,
              result_errors = Some [TypeMismatch 0 (JStr ''shortText'') ''number'']\<rparr>"
  have ev: "validateQuestions [?q] (map mapAirtableField [?f]) = Inr ?r"
    by (simp add: validateQuestions_def validateQuestion_def checkQuestionKey_def
          checkAirtableFieldId_def checkLabel_def checkType_def checkRequired_def
          checkAgainstField_def checkOptions_def checkValidationRules_def push_error_def
          mapAirtableField_def mappedType_def airtableTypeMap_def supportedTypes_def Let_def)
  have fnd: "find (\<lambda>f. JStr (mf_id f) = qi_airtableFieldId ([?q] ! 0))
               (map mapAirtableField [?f]) = Some (mapAirtableField ?f)"
    by (simp add: mapAirtableField_def Let_def)
  from field_type_table_and_rejection [of ?f 0 "[?q]" "[?f]" "mapAirtableField ?f" ?r]
       field_type_table_and_rejection [of ?m 0 "[?q]" "[?f]" "mapAirtableField ?f" ?r]
       ev fnd
  show ?thesis by simp
qed

section \<open>Webhook handler: proofs\<close>


lemma utf8_bytes_nonempty [simp]: "utf8_bytes c \<noteq> []" "[] \<noteq> utf8_bytes c"
  by (auto simp: utf8_bytes_def Let_def)



text \<open>
  A stand-in for the digest when running examples: 64 characters that depend on key
  and payload. The examples depend on the digest only through its length and through
  whether the header equals it.
\<close>

definition example_digest :: "string \<Rightarrow> string \<Rightarrow> string" where
  "example_digest key payload = take 64 (concat (replicate 64 (key @ payload @ ''0'')))"




text \<open>
  C10. With no secret (unset or empty) \<open>verifySignature\<close> returns true for every payload
  and signature, the missing header included, and the handler goes straight to
  processing: its answer and the store it leaves are those of \<open>processWebhook\<close>,
  whatever the signature header and the digest function are.
\<close>

theorem no_secret_skips_verification:
  "(\<not> str_truthy (service_webhookSecret cfg)
      \<longrightarrow> verifySignature hmac (service_webhookSecret cfg) payload signature = Inr True)
   \<and> (\<not> str_truthy (env_WEBHOOK_SECRET cfg)
      \<longrightarrow> handleWebhook hmac stringify processWebhook cfg req s
          = (case processWebhook (req_body req) s of
               (Some error, s') \<Rightarrow>
                 (\<lparr>http_status = 200, http_body = Failure (message error)\<rparr>, s')
             | (None, s') \<Rightarrow>
                 (\<lparr>http_status = 200, http_body = Success ''Webhook processed successfully''\<rparr>,
                  s')))"
  by (cases "service_webhookSecret cfg")
     (auto simp: verifySignature_def handleWebhook_def Let_def)

theorem no_secret_skips_verification_witness:
  "verifySignature example_digest None ''{}'' (Some ''forged'') = Inr True
   \<and> verifySignature example_digest (Some []) ''{}'' None = Inr True
   \<and> handleWebhook example_digest (\<lambda>b. b) (\<lambda>b s. (None, b # s))
        \<lparr>env_WEBHOOK_SECRET = None, service_webhookSecret = None\<rparr>
        \<lparr>header_signature = Some ''forged'', req_body = ''{}''\<rparr> []
      = (\<lparr>http_status = 200, http_body = Success ''Webhook processed successfully''\<rparr>,
         [''{}''])"
  using no_secret_skips_verification
          [of "\<lparr>env_WEBHOOK_SECRET = None, service_webhookSecret = None\<rparr>"
              example_digest "''{}''" "Some ''forged''" "\<lambda>b. b" "\<lambda>b s. (None, b # s)"
              "\<lparr>header_signature = Some ''forged'', req_body = ''{}''\<rparr>" "[]"]
        no_secret_skips_verification
          [of "\<lparr>env_WEBHOOK_SECRET = Some [], service_webhookSecret = Some []\<rparr>"
              example_digest "''{}''" None "\<lambda>b. b" "\<lambda>b s. (None, b # s)"
              "\<lparr>header_signature = None, req_body = ''{}''\<rparr>" "[]"]
  by simp

section \<open>Inbound synchronisation: proofs\<close>


text \<open>The store's invariant: \<open>_id\<close> and \<open>airtableRecordId\<close> are both unique.\<close>

definition store_ok :: "response list \<Rightarrow> bool" where
  "store_ok db = (distinct (map response_id db) \<and> distinct (map airtableRecordId db))"

lemma fold_max_ge: "a \<le> fold max xs (a::nat)" 
  by (induction xs arbitrary: a) (auto intro: order_trans[OF max.cobounded2])

lemma fold_max_upper: "x \<in> set xs \<Longrightarrow> x \<le> fold max xs (a::nat)"
proof (induction xs arbitrary: a)
  case Nil
  then show ?case by simp
next
  case (Cons y ys)
  then show ?case
    using fold_max_ge[of "max y a" ys] by auto
qed

lemma fresh_id_fresh: "fresh_id db \<notin> set (map response_id db)"
proof
  assume "fresh_id db \<in> set (map response_id db)"
  then have "fresh_id db \<le> fold max (map response_id db) 0" by (rule fold_max_upper)
  then show False by (simp add: fresh_id_def)
qed

lemma find_mem: "find P xs = Some x \<Longrightarrow> x \<in> set xs \<and> P x"
  by (induction xs) (auto split: if_splits)

lemma same_id_same_doc:
  assumes "distinct (map response_id db)" "r0 \<in> set db" "x \<in> set db"
    "response_id x = response_id r0"
  shows "x = r0"
  using assms by (meson distinct_map inj_onD)

lemma replace_same_key:
  assumes "distinct (map response_id db)" "r0 \<in> set db"
    "response_id d = response_id r0" "airtableRecordId d = airtableRecordId r0"
  shows "map airtableRecordId (map (\<lambda>r. if response_id r = response_id d then d else r) db)
         = map airtableRecordId db"
    and "map response_id (map (\<lambda>r. if response_id r = response_id d then d else r) db)
         = map response_id db"
proof -
  have "airtableRecordId (if response_id x = response_id d then d else x) = airtableRecordId x"
    if "x \<in> set db" for x
    using same_id_same_doc[OF assms(1,2) that] assms(3,4) by auto
  then show "map airtableRecordId (map (\<lambda>r. if response_id r = response_id d then d else r) db)
         = map airtableRecordId db"
    by (simp add: map_idI comp_def cong: map_cong)
  show "map response_id (map (\<lambda>r. if response_id r = response_id d then d else r) db)
         = map response_id db"
    by (induction db) auto
qed

lemma find_after_replace:
  assumes "find P db = Some r0" "P d" "response_id d = response_id r0"
    "distinct (map response_id db)"
  shows "find P (map (\<lambda>r. if response_id r = response_id d then d else r) db) = Some d"
  using assms
proof (induction db)
  case Nil
  then show ?case by simp
next
  case (Cons x xs)
  show ?case
  proof (cases "P x")
    case True
    with Cons.prems show ?thesis by simp
  next
    case False
    with Cons.prems have f: "find P xs = Some r0" by simp
    then have "r0 \<in> set xs" using find_mem by metis
    with Cons.prems have "response_id x \<noteq> response_id d" by force
    with False f Cons show ?thesis by simp
  qed
qed

lemma syncSingleRecord_total: "\<exists>db'. syncSingleRecord env b t r db = Inr db'"
  by (simp add: syncSingleRecord_def split: sum.splits)

lemma save_existing_ok:
  assumes "store_ok db" "r0 \<in> set db" "response_id d = response_id r0"
    "airtableRecordId d = airtableRecordId r0" "save_existing env db d = Inr db'"
  shows "store_ok db'"
proof -
  from assms(5) have "db' = map (\<lambda>r. if response_id r = response_id d then d else r) db"
    by (auto simp: save_existing_def split: option.splits)
  moreover from assms(1) have "distinct (map response_id db)" by (simp add: store_ok_def)
  ultimately have "map airtableRecordId db' = map airtableRecordId db"
    "map response_id db' = map response_id db"
    using replace_same_key[of db r0 d] assms(2,3,4) by simp_all
  with assms(1) show ?thesis unfolding store_ok_def by metis
qed

lemma save_new_ok:
  assumes "store_ok db" "save_new env db d = Inr db'"
  shows "store_ok db'"
proof -
  from assms(2) have new: "\<not> list_ex (\<lambda>r. airtableRecordId r = airtableRecordId d) db"
    and db': "db' = db @ [d\<lparr>response_id := fresh_id db\<rparr>]"
    by (auto simp: save_new_def split: option.splits if_splits)
  from new have "airtableRecordId d \<notin> set (map airtableRecordId db)"
    by (auto simp: list_ex_iff)
  with assms(1) fresh_id_fresh[of db] db' show ?thesis
    by (simp add: store_ok_def)
qed

lemma findOrCreateAndSave_ok:
  assumes "store_ok db" "findOrCreateAndSave env form rid ans db = Inr db'"
  shows "store_ok db'"
proof (cases "find (\<lambda>r. airtableRecordId r = rid) db")
  case None
  with assms(2) show ?thesis
    using save_new_ok[OF assms(1)]
    by (auto simp: findOrCreateAndSave_def Response_findOne_def split: option.splits)
next
  case (Some r0)
  then have mem: "r0 \<in> set db" using find_mem by metis
  let ?d = "r0\<lparr>answers := ans, status := Synced,
                syncStatus := (syncStatus r0)
                  \<lparr>lastSyncedAt := Some (now env),
                    syncAttempts := syncAttempts (syncStatus r0) + 1\<rparr>\<rparr>"
  from Some assms(2) have "save_existing env db ?d = Inr db'"
    by (auto simp: findOrCreateAndSave_def Response_findOne_def split: option.splits)
  then show ?thesis
    by (rule save_existing_ok[OF assms(1) mem, rotated 2]) simp_all
qed

lemma syncTry_cases:
  assumes "syncTry env b t rid db = Inr db'"
  shows "db' = db \<or> (\<exists>form ans. findOrCreateAndSave env form rid ans db = Inr db')"
proof (cases "formFindOne env b t")
  case (Inl e)
  with assms show ?thesis by (simp add: syncTry_def)
next
  case (Inr fo)
  show ?thesis
  proof (cases fo)
    case None
    with Inr assms show ?thesis by (simp add: syncTry_def)
  next
    case (Some form)
    note f = Inr[unfolded Some]
    show ?thesis
    proof (cases "userFindById env (form_userId form)")
      case (Inl e)
      with f assms show ?thesis by (simp add: syncTry_def)
    next
      case (Inr uo)
      with f assms show ?thesis
        by (cases uo; cases "isTokenExpired env (the uo)";
            cases "getRecord env (accessToken (the uo)) b t rid")
           (auto simp: syncTry_def split: option.splits sum.splits)
    qed
  qed
qed

lemma syncTry_ok:
  assumes "store_ok db" "syncTry env b t rid db = Inr db'"
  shows "store_ok db'"
proof -
  from syncTry_cases[OF assms(2)] consider "db' = db"
    | form ans where "findOrCreateAndSave env form rid ans db = Inr db'" by blast
  then show ?thesis
  proof cases
    case 1
    with assms(1) show ?thesis by simp
  next
    case 2
    then show ?thesis by (rule findOrCreateAndSave_ok[OF assms(1)])
  qed
qed

lemma syncCatch_ok:
  assumes "store_ok db" "syncCatch env rid e db = Inr db'"
  shows "store_ok db'"
proof (cases "find (\<lambda>r. airtableRecordId r = rid) db")
  case None
  with assms show ?thesis
    by (auto simp: syncCatch_def Response_findOne_def split: option.splits)
next
  case (Some r0)
  then have mem: "r0 \<in> set db" using find_mem by metis
  let ?d = "r0\<lparr>status := Failed,
                syncStatus := (syncStatus r0)
                  \<lparr>syncError := Some (message e),
                    syncAttempts := syncAttempts (syncStatus r0) + 1\<rparr>\<rparr>"
  from Some assms(2) have "save_existing env db ?d = Inr db'"
    by (auto simp: syncCatch_def Response_findOne_def split: option.splits)
  then show ?thesis
    by (rule save_existing_ok[OF assms(1) mem, rotated 2]) simp_all
qed

lemma syncSingleRecord_ok:
  assumes "store_ok db" "syncSingleRecord env b t rid db = Inr db'"
  shows "store_ok db'"
proof (cases "syncTry env b t rid db")
  case (Inr d)
  with assms(2) have "d = db'" by (simp add: syncSingleRecord_def)
  with Inr assms(1) show ?thesis using syncTry_ok by blast
next
  case (Inl e)
  show ?thesis
  proof (cases "syncCatch env rid e db")
    case (Inr d)
    with Inl assms(2) have "d = db'" by (simp add: syncSingleRecord_def)
    with Inr assms(1) show ?thesis using syncCatch_ok by blast
  next
    case (Inl e')
    with \<open>syncTry env b t rid db = Inl e\<close> assms show ?thesis
      by (simp add: syncSingleRecord_def)
  qed
qed

text \<open>An answer without its \<open>submittedAt\<close> stamp.\<close>

definition answer_kv :: "answer \<Rightarrow> string \<times> jsval" where
  "answer_kv a = (answer_questionKey a, answer_value a)"

lemma buildAnswers_clock:
  assumes "buildAnswers t qs flds = Inr a"
  shows "\<exists>a'. buildAnswers t' qs flds = Inr a' \<and> map answer_kv a' = map answer_kv a"
proof (cases qs)
  case Nil
  with assms show ?thesis by (simp add: buildAnswers_def)
next
  case (Cons q qs')
  with assms obtain f where f: "flds = Some f"
    by (cases flds) (auto simp: buildAnswers_def)
  define F where "F = (\<lambda>u (q::question). case f (q_airtableFieldId q) of None \<Rightarrow> None
                | Some v \<Rightarrow> Some \<lparr>answer_questionKey = q_questionKey q, answer_value = v,
                                   submittedAt = u\<rparr>)"
  have eq: "buildAnswers u qs flds = Inr (List.map_filter (F u) qs)" for u
    unfolding F_def using f Cons by (simp add: buildAnswers_def)
  have "map answer_kv (List.map_filter (F t') xs) = map answer_kv (List.map_filter (F t) xs)"
    for xs
    by (induction xs) (auto simp: List.map_filter_simps answer_kv_def F_def split: option.splits)
  with assms eq show ?thesis by auto
qed

lemma sync_existing_success:
  assumes form: "formFindOne env b t = Inr (Some form)"
    and user: "userFindById env (form_userId form) = Inr (Some user)"
    and valid: "\<not> isTokenExpired env user"
    and rec: "getRecord env (accessToken user) b t rid = Inr (Some arec)"
    and build: "buildAnswers (now env) (form_questions form) (ar_fields arec) = Inr ans"
    and nofault: "\<forall>op. storeFault env op = None"
    and fnd: "find (\<lambda>r. airtableRecordId r = rid) db = Some r0"
  shows "syncSingleRecord env b t rid db
         = Inr (map (\<lambda>r. if response_id r = response_id r0
                         then r0\<lparr>answers := ans, status := Synced,
                                 syncStatus := (syncStatus r0)
                                   \<lparr>lastSyncedAt := Some (now env),
                                     syncAttempts := syncAttempts (syncStatus r0) + 1\<rparr>\<rparr>
                         else r) db)"
  using assms
  by (simp add: syncSingleRecord_def syncTry_def findOrCreateAndSave_def Response_findOne_def
        save_existing_def)

text \<open>
  Data for running examples: one form bound to base \<open>app1\<close>, table \<open>tbl1\<close>, owned by
  user 7 whose token expires at \<open>expires\<close>; the clock reads 100; one stored response
  linked to record \<open>rec1\<close>.
\<close>

definition example_form :: form where
  "example_form =
     \<lparr> form_id = 1, form_userId = 7, airtableBaseId = ''app1'', airtableTableId = ''tbl1'',
       form_questions =
         [\<lparr>q_questionKey = ''name'', q_airtableFieldId = ''fldName'',
           q_conditionalRules = None\<rparr>] \<rparr>"

definition example_env ::
  "nat \<Rightarrow> (string \<Rightarrow> jserror + airtable_record option) \<Rightarrow> (store_op \<Rightarrow> jserror option)
   \<Rightarrow> (string option \<Rightarrow> jserror + page) \<Rightarrow> sync_env" where
  "example_env expires fetch fault pages =
     \<lparr> formFindOne = (\<lambda>b t. if b = ''app1'' \<and> t = ''tbl1'' then Inr (Some example_form)
                              else Inr None),
       formFindById = (\<lambda>i. if i = 1 then Inr (Some example_form) else Inr None),
       userFindById = (\<lambda>i. if i = 7
                            then Inr (Some \<lparr>accessToken = ''tok'', tokenExpiresAt = expires\<rparr>)
                            else Inr None),
       getRecord = (\<lambda>token b t r. fetch r),
       listRecords = (\<lambda>token b t offset. pages offset),
       pushResponse = (\<lambda>i db. (None, db)),
       storeFault = fault,
       now = 100 \<rparr>"

definition example_response :: response where
  "example_response =
     \<lparr> response_id = 1, formId = 1, userId = 7, airtableRecordId = ''rec1'', status = Synced,
       answers = [\<lparr>answer_questionKey = ''name'', answer_value = JStr ''A'', submittedAt = 50\<rparr>],
       syncStatus = \<lparr>lastSyncedAt = Some 50, syncAttempts = 1, syncError = None\<rparr> \<rparr>"

definition example_record :: "string \<Rightarrow> jserror + airtable_record option" where
  "example_record r = Inr (Some \<lparr>ar_fields = Some [''fldName'' \<mapsto> JStr ''B'']\<rparr>)"

definition no_pages :: "string option \<Rightarrow> jserror + page" where
  "no_pages offset = Inr \<lparr>page_records = Some [], page_offset = None\<rparr>"

text \<open>
  C1, amended. When the form is found, the owner's token is valid at both calls, the fetch
  returns the record, the mapping succeeds and the store rejects nothing, two calls in a
  row for a record linked to a response leave that response with the same key/value
  answers as the first call left (the \<open>submittedAt\<close> stamps are those of the second
  call), with status synced, attempts incremented by exactly 2, and the list of
  \<open>airtableRecordId\<close>s of the store unchanged. Every call, whatever the environment,
  preserves uniqueness of \<open>_id\<close> and \<open>airtableRecordId\<close>.
\<close>

theorem syncSingleRecord_twice:
  "(formFindOne env baseId tableId = Inr (Some form)
    \<and> userFindById env (form_userId form) = Inr (Some user)
    \<and> \<not> isTokenExpired env user \<and> \<not> isTokenExpired (env\<lparr>now := t2\<rparr>) user
    \<and> getRecord env (accessToken user) baseId tableId recordId = Inr (Some arec)
    \<and> buildAnswers (now env) (form_questions form) (ar_fields arec) = Inr ans
    \<and> (\<forall>op. storeFault env op = None)
    \<and> find (\<lambda>r. airtableRecordId r = recordId) db = Some r0
    \<and> distinct (map response_id db)
    \<longrightarrow> (\<exists>db1 db2 r1 r2.
          syncSingleRecord env baseId tableId recordId db = Inr db1
        \<and> syncSingleRecord (env\<lparr>now := t2\<rparr>) baseId tableId recordId db1 = Inr db2
        \<and> find (\<lambda>r. airtableRecordId r = recordId) db1 = Some r1
        \<and> find (\<lambda>r. airtableRecordId r = recordId) db2 = Some r2
        \<and> map answer_kv (answers r2) = map answer_kv (answers r1)
        \<and> syncAttempts (syncStatus r2) = syncAttempts (syncStatus r0) + 2
        \<and> status r2 = Synced
        \<and> map airtableRecordId db2 = map airtableRecordId db))
   \<and> (store_ok db \<and> syncSingleRecord env' baseId' tableId' recordId' db = Inr db'
      \<longrightarrow> store_ok db')"
proof (intro conjI impI)
  assume "store_ok db \<and> syncSingleRecord env' baseId' tableId' recordId' db = Inr db'"
  then show "store_ok db'" using syncSingleRecord_ok by blast
next
  assume a: "formFindOne env baseId tableId = Inr (Some form)
    \<and> userFindById env (form_userId form) = Inr (Some user)
    \<and> \<not> isTokenExpired env user \<and> \<not> isTokenExpired (env\<lparr>now := t2\<rparr>) user
    \<and> getRecord env (accessToken user) baseId tableId recordId = Inr (Some arec)
    \<and> buildAnswers (now env) (form_questions form) (ar_fields arec) = Inr ans
    \<and> (\<forall>op. storeFault env op = None)
    \<and> find (\<lambda>r. airtableRecordId r = recordId) db = Some r0
    \<and> distinct (map response_id db)"
  let ?P = "\<lambda>r. airtableRecordId r = recordId"
  from a have form: "formFindOne env baseId tableId = Inr (Some form)"
    and user: "userFindById env (form_userId form) = Inr (Some user)"
    and valid: "\<not> isTokenExpired env user"
    and valid2: "\<not> isTokenExpired (env\<lparr>now := t2\<rparr>) user"
    and rec: "getRecord env (accessToken user) baseId tableId recordId = Inr (Some arec)"
    and build: "buildAnswers (now env) (form_questions form) (ar_fields arec) = Inr ans"
    and nofault: "\<forall>op. storeFault env op = None"
    and fnd: "find ?P db = Some r0"
    and dist: "distinct (map response_id db)"
    by blast+
  define r1 where "r1 = r0\<lparr>answers := ans, status := Synced,
                           syncStatus := (syncStatus r0)
                             \<lparr>lastSyncedAt := Some (now env),
                               syncAttempts := syncAttempts (syncStatus r0) + 1\<rparr>\<rparr>"
  define db1 where "db1 = map (\<lambda>r. if response_id r = response_id r0 then r1 else r) db"
  from find_mem[OF fnd] have r0: "r0 \<in> set db" "?P r0" by simp_all
  have id1: "response_id r1 = response_id r0" "?P r1"
    using r0 by (simp_all add: r1_def)
  have s1: "syncSingleRecord env baseId tableId recordId db = Inr db1"
    unfolding db1_def r1_def
    by (rule sync_existing_success[OF form user valid rec build nofault fnd])
  have db1': "db1 = map (\<lambda>r. if response_id r = response_id r1 then r1 else r) db"
    by (simp add: db1_def id1)
  have f1: "find ?P db1 = Some r1"
    unfolding db1' by (rule find_after_replace[OF fnd id1(2) id1(1) dist])
  have m1: "map airtableRecordId db1 = map airtableRecordId db"
    "map response_id db1 = map response_id db"
    unfolding db1' using replace_same_key[OF dist r0(1), of r1] r0(2) id1 by simp_all
  from buildAnswers_clock[OF build, of t2]
  obtain ans2 where b2: "buildAnswers t2 (form_questions form) (ar_fields arec) = Inr ans2"
    and kv: "map answer_kv ans2 = map answer_kv ans"
    by blast
  define r2 where "r2 = r1\<lparr>answers := ans2, status := Synced,
                           syncStatus := (syncStatus r1)
                             \<lparr>lastSyncedAt := Some t2,
                               syncAttempts := syncAttempts (syncStatus r1) + 1\<rparr>\<rparr>"
  define db2 where "db2 = map (\<lambda>r. if response_id r = response_id r1 then r2 else r) db1"
  have id2: "response_id r2 = response_id r1" "?P r2"
    using id1 by (simp_all add: r2_def)
  have s2: "syncSingleRecord (env\<lparr>now := t2\<rparr>) baseId tableId recordId db1 = Inr db2"
  proof -
    let ?e = "env\<lparr>now := t2\<rparr>"
    have form': "formFindOne ?e baseId tableId = Inr (Some form)" using form by simp
    have user': "userFindById ?e (form_userId form) = Inr (Some user)" using user by simp
    have rec': "getRecord ?e (accessToken user) baseId tableId recordId = Inr (Some arec)"
      using rec by simp
    have build': "buildAnswers (now ?e) (form_questions form) (ar_fields arec) = Inr ans2"
      using b2 by simp
    have nofault': "\<forall>op. storeFault ?e op = None" using nofault by simp
    have "syncSingleRecord ?e baseId tableId recordId db1
          = Inr (map (\<lambda>r. if response_id r = response_id r1
                   then r1\<lparr>answers := ans2, status := Synced,
                           syncStatus := (syncStatus r1)
                             \<lparr>lastSyncedAt := Some (now ?e),
                               syncAttempts := syncAttempts (syncStatus r1) + 1\<rparr>\<rparr>
                   else r) db1)"
      by (rule sync_existing_success[OF form' user' valid2 rec' build' nofault' f1])
    then show ?thesis by (simp add: db2_def r2_def)
  qed
  have db2': "db2 = map (\<lambda>r. if response_id r = response_id r2 then r2 else r) db1"
    by (simp add: db2_def id2)
  have d1: "distinct (map response_id db1)" using dist m1 by simp
  have f2: "find ?P db2 = Some r2"
    unfolding db2' by (rule find_after_replace[OF f1 id2(2) id2(1) d1])
  have r1mem: "r1 \<in> set db1" using find_mem[OF f1] by simp
  have m2: "map airtableRecordId db2 = map airtableRecordId db1"
    unfolding db2' using replace_same_key(1)[OF d1 r1mem, of r2] id1 id2 by simp
  have kv2: "map answer_kv (answers r2) = map answer_kv (answers r1)"
    by (simp add: r2_def r1_def kv)
  have at2: "syncAttempts (syncStatus r2) = syncAttempts (syncStatus r0) + 2"
    by (simp add: r2_def r1_def)
  have st2: "status r2 = Synced" by (simp add: r2_def)
  have m12: "map airtableRecordId db2 = map airtableRecordId db"
    using m1 m2 by simp
  show "\<exists>db1 db2 r1 r2.
          syncSingleRecord env baseId tableId recordId db = Inr db1
        \<and> syncSingleRecord (env\<lparr>now := t2\<rparr>) baseId tableId recordId db1 = Inr db2
        \<and> find (\<lambda>r. airtableRecordId r = recordId) db1 = Some r1
        \<and> find (\<lambda>r. airtableRecordId r = recordId) db2 = Some r2
        \<and> map answer_kv (answers r2) = map answer_kv (answers r1)
        \<and> syncAttempts (syncStatus r2) = syncAttempts (syncStatus r0) + 2
        \<and> status r2 = Synced
        \<and> map airtableRecordId db2 = map airtableRecordId db"
    using s1 s2 f1 f2 kv2 at2 st2 m12 by blast
qed

text \<open>
  C1, as stated, fails on the code: when the owner's token is expired, \<open>syncSingleRecord\<close>
  returns before touching the store. The response linked to \<open>rec1\<close> has one attempt
  before, after one call, and (the store being unchanged) after any number of calls.
\<close>

theorem sync_twice_expired_token:
  "find (\<lambda>r. airtableRecordId r = ''rec1'') [example_response] = Some example_response
   \<and> syncAttempts (syncStatus example_response) = 1
   \<and> syncSingleRecord (example_env 99 example_record (\<lambda>op. None) no_pages)
        ''app1'' ''tbl1'' ''rec1'' [example_response] = Inr [example_response]
   \<and> (case syncSingleRecord (example_env 99 example_record (\<lambda>op. None) no_pages)
              ''app1'' ''tbl1'' ''rec1'' [example_response] of
         Inl e \<Rightarrow> Inl e
       | Inr db1 \<Rightarrow>
           syncSingleRecord (example_env 99 example_record (\<lambda>op. None) no_pages)
             ''app1'' ''tbl1'' ''rec1'' db1)
      = Inr [example_response]"
  by code_simp

theorem syncSingleRecord_twice_witness:
  "\<exists>db1 db2 r1 r2.
      syncSingleRecord (example_env 1000 example_record (\<lambda>op. None) no_pages)
        ''app1'' ''tbl1'' ''rec1'' [example_response] = Inr db1
    \<and> syncSingleRecord ((example_env 1000 example_record (\<lambda>op. None) no_pages)\<lparr>now := 200\<rparr>)
        ''app1'' ''tbl1'' ''rec1'' db1 = Inr db2
    \<and> find (\<lambda>r. airtableRecordId r = ''rec1'') db1 = Some r1
    \<and> find (\<lambda>r. airtableRecordId r = ''rec1'') db2 = Some r2
    \<and> map answer_kv (answers r2) = map answer_kv (answers r1)
    \<and> syncAttempts (syncStatus r2) = syncAttempts (syncStatus example_response) + 2
    \<and> status r2 = Synced
    \<and> map airtableRecordId db2 = map airtableRecordId [example_response]"
proof -
  let ?env = "example_env 1000 example_record (\<lambda>op. None) no_pages"
  let ?user = "\<lparr>accessToken = ''tok'', tokenExpiresAt = 1000\<rparr>"
  let ?arec = "\<lparr>ar_fields = Some [''fldName'' \<mapsto> JStr ''B'']\<rparr>"
  let ?ans = "[\<lparr>answer_questionKey = ''name'', answer_value = JStr ''B'', submittedAt = 100\<rparr>]"
  have h: "formFindOne ?env ''app1'' ''tbl1'' = Inr (Some example_form)
    \<and> userFindById ?env (form_userId example_form) = Inr (Some ?user)
    \<and> \<not> isTokenExpired ?env ?user \<and> \<not> isTokenExpired (?env\<lparr>now := 200\<rparr>) ?user
    \<and> getRecord ?env (accessToken ?user) ''app1'' ''tbl1'' ''rec1'' = Inr (Some ?arec)
    \<and> buildAnswers (now ?env) (form_questions example_form) (ar_fields ?arec) = Inr ?ans
    \<and> (\<forall>op. storeFault ?env op = None)
    \<and> find (\<lambda>r. airtableRecordId r = ''rec1'') [example_response] = Some example_response
    \<and> distinct (map response_id [example_response])"
    by (simp add: example_env_def example_form_def example_record_def example_response_def
          isTokenExpired_def buildAnswers_def List.map_filter_simps)
  from syncSingleRecord_twice
         [of ?env "''app1''" "''tbl1''" example_form ?user 200 "''rec1''" ?arec ?ans
             "[example_response]" example_response] h
  show ?thesis by blast
qed


lemma syncTry_throws:
  assumes "formFindOne env b t = Inr (Some form)"
    and "userFindById env (form_userId form) = Inr (Some user)"
    and "\<not> isTokenExpired env user"
  shows "getRecord env (accessToken user) b t rid = Inl e \<Longrightarrow> syncTry env b t rid db = Inl e"
    and "getRecord env (accessToken user) b t rid = Inr (Some arec) \<Longrightarrow>
         buildAnswers (now env) (form_questions form) (ar_fields arec) = Inl e \<Longrightarrow>
         syncTry env b t rid db = Inl e"
    and "getRecord env (accessToken user) b t rid = Inr (Some arec) \<Longrightarrow>
         buildAnswers (now env) (form_questions form) (ar_fields arec) = Inr ans \<Longrightarrow>
         findOrCreateAndSave env form rid ans db = Inl e \<Longrightarrow>
         syncTry env b t rid db = Inl e"
  using assms by (simp_all add: syncTry_def)

lemma syncCatch_marks_failed:
  assumes fnd: "find (\<lambda>r. airtableRecordId r = rid) db = Some r0"
    and nf: "storeFault env (FindOne rid) = None"
    and ns: "storeFault env (Save (r0\<lparr>status := Failed,
                 syncStatus := (syncStatus r0)
                   \<lparr>syncError := Some (message error),
                     syncAttempts := syncAttempts (syncStatus r0) + 1\<rparr>\<rparr>)) = None"
    and dist: "distinct (map response_id db)"
  shows "\<exists>db' r1. syncCatch env rid error db = Inr db'
           \<and> find (\<lambda>r. airtableRecordId r = rid) db' = Some r1
           \<and> status r1 = Failed
           \<and> syncError (syncStatus r1) = Some (message error)
           \<and> syncAttempts (syncStatus r1) = syncAttempts (syncStatus r0) + 1
           \<and> answers r1 = answers r0"
proof -
  define r1 where "r1 = r0\<lparr>status := Failed,
                 syncStatus := (syncStatus r0)
                   \<lparr>syncError := Some (message error),
                     syncAttempts := syncAttempts (syncStatus r0) + 1\<rparr>\<rparr>"
  define db' where "db' = map (\<lambda>r. if response_id r = response_id r1 then r1 else r) db"
  from find_mem[OF fnd] have r0: "r0 \<in> set db" "airtableRecordId r0 = rid" by simp_all
  have id1: "response_id r1 = response_id r0" "airtableRecordId r1 = rid"
    using r0 by (simp_all add: r1_def)
  have "syncCatch env rid error db = Inr db'"
    using fnd nf ns
    by (simp add: syncCatch_def Response_findOne_def save_existing_def db'_def r1_def)
  moreover have "find (\<lambda>r. airtableRecordId r = rid) db' = Some r1"
    unfolding db'_def by (rule find_after_replace[OF fnd id1(2) id1(1) dist])
  moreover have "status r1 = Failed" "syncError (syncStatus r1) = Some (message error)"
    "syncAttempts (syncStatus r1) = syncAttempts (syncStatus r0) + 1" "answers r1 = answers r0"
    by (simp_all add: r1_def)
  ultimately show ?thesis by blast
qed

text \<open>
  C6, amended. \<open>syncSingleRecord\<close> never throws. When its \<open>try\<close> block throws, a
  response for the record exists and the store accepts the lookup and the write of the
  \<open>catch\<close> block, the response ends failed, with the error's message, one more attempt
  and its answers untouched. A throw of the fetch, of the mapping or of the save is a
  throw of the \<open>try\<close> block.
\<close>

theorem syncSingleRecord_contains_failure:
  "(\<exists>db'. syncSingleRecord env baseId tableId recordId db = Inr db')
   \<and> (syncTry env baseId tableId recordId db = Inl error
      \<and> find (\<lambda>r. airtableRecordId r = recordId) db = Some r0
      \<and> storeFault env (FindOne recordId) = None
      \<and> storeFault env (Save (r0\<lparr>status := Failed,
                 syncStatus := (syncStatus r0)
                   \<lparr>syncError := Some (message error),
                     syncAttempts := syncAttempts (syncStatus r0) + 1\<rparr>\<rparr>)) = None
      \<and> distinct (map response_id db)
      \<longrightarrow> (\<exists>db' r1. syncSingleRecord env baseId tableId recordId db = Inr db'
            \<and> find (\<lambda>r. airtableRecordId r = recordId) db' = Some r1
            \<and> status r1 = Failed
            \<and> syncError (syncStatus r1) = Some (message error)
            \<and> syncAttempts (syncStatus r1) = syncAttempts (syncStatus r0) + 1
            \<and> answers r1 = answers r0))
   \<and> (formFindOne env baseId tableId = Inr (Some form)
      \<and> userFindById env (form_userId form) = Inr (Some user)
      \<and> \<not> isTokenExpired env user
      \<and> (getRecord env (accessToken user) baseId tableId recordId = Inl error
         \<or> (\<exists>arec. getRecord env (accessToken user) baseId tableId recordId = Inr (Some arec)
              \<and> (buildAnswers (now env) (form_questions form) (ar_fields arec) = Inl error
                 \<or> (\<exists>ans. buildAnswers (now env) (form_questions form) (ar_fields arec) = Inr ans
                      \<and> findOrCreateAndSave env form recordId ans db = Inl error))))
      \<longrightarrow> syncTry env baseId tableId recordId db = Inl error)"
proof (intro conjI impI)
  show "\<exists>db'. syncSingleRecord env baseId tableId recordId db = Inr db'"
    by (rule syncSingleRecord_total)
next
  assume a: "syncTry env baseId tableId recordId db = Inl error
      \<and> find (\<lambda>r. airtableRecordId r = recordId) db = Some r0
      \<and> storeFault env (FindOne recordId) = None
      \<and> storeFault env (Save (r0\<lparr>status := Failed,
                 syncStatus := (syncStatus r0)
                   \<lparr>syncError := Some (message error),
                     syncAttempts := syncAttempts (syncStatus r0) + 1\<rparr>\<rparr>)) = None
      \<and> distinct (map response_id db)"
  then have t: "syncTry env baseId tableId recordId db = Inl error" by simp
  from a syncCatch_marks_failed[of recordId db r0 env error]
  obtain db' r1 where c: "syncCatch env recordId error db = Inr db'"
    and r: "find (\<lambda>r. airtableRecordId r = recordId) db' = Some r1" "status r1 = Failed"
      "syncError (syncStatus r1) = Some (message error)"
      "syncAttempts (syncStatus r1) = syncAttempts (syncStatus r0) + 1"
      "answers r1 = answers r0"
    by blast
  from t c have "syncSingleRecord env baseId tableId recordId db = Inr db'"
    by (simp add: syncSingleRecord_def)
  with r show "\<exists>db' r1. syncSingleRecord env baseId tableId recordId db = Inr db'
            \<and> find (\<lambda>r. airtableRecordId r = recordId) db' = Some r1
            \<and> status r1 = Failed
            \<and> syncError (syncStatus r1) = Some (message error)
            \<and> syncAttempts (syncStatus r1) = syncAttempts (syncStatus r0) + 1
            \<and> answers r1 = answers r0"
    by blast
next
  assume "formFindOne env baseId tableId = Inr (Some form)
      \<and> userFindById env (form_userId form) = Inr (Some user)
      \<and> \<not> isTokenExpired env user
      \<and> (getRecord env (accessToken user) baseId tableId recordId = Inl error
         \<or> (\<exists>arec. getRecord env (accessToken user) baseId tableId recordId = Inr (Some arec)
              \<and> (buildAnswers (now env) (form_questions form) (ar_fields arec) = Inl error
                 \<or> (\<exists>ans. buildAnswers (now env) (form_questions form) (ar_fields arec) = Inr ans
                      \<and> findOrCreateAndSave env form recordId ans db = Inl error))))"
  then show "syncTry env baseId tableId recordId db = Inl error"
    by (auto simp: syncTry_def)
qed

text \<open>
  C6, as stated, fails on the code: the \<open>catch\<close> block updates a response only "if it
  exists" and only if its own write succeeds. A failed fetch for \<open>rec9\<close>, which no
  response is linked to, leaves the store as it was; so does a sync of \<open>rec1\<close> against
  a store that rejects every operation: the response keeps its status synced.
\<close>

definition failing_fetch :: "string \<Rightarrow> jserror + airtable_record option" where
  "failing_fetch r = Inl (Error ''Resource not found in Airtable.'')"

definition store_down :: "store_op \<Rightarrow> jserror option" where
  "store_down op = Some (Error ''store unavailable'')"

theorem sync_failure_not_recorded:
  "syncTry (example_env 1000 failing_fetch (\<lambda>op. None) no_pages) ''app1'' ''tbl1'' ''rec9''
       [example_response] = Inl (Error ''Resource not found in Airtable.'')
   \<and> syncSingleRecord (example_env 1000 failing_fetch (\<lambda>op. None) no_pages)
        ''app1'' ''tbl1'' ''rec9'' [example_response] = Inr [example_response]
   \<and> syncTry (example_env 1000 example_record store_down no_pages) ''app1'' ''tbl1'' ''rec1''
       [example_response] = Inl (Error ''store unavailable'')
   \<and> syncSingleRecord (example_env 1000 example_record store_down no_pages)
        ''app1'' ''tbl1'' ''rec1'' [example_response] = Inr [example_response]
   \<and> status example_response = Synced"
  by code_simp

theorem syncSingleRecord_contains_failure_witness:
  "\<exists>db' r1. syncSingleRecord (example_env 1000 failing_fetch (\<lambda>op. None) no_pages)
               ''app1'' ''tbl1'' ''rec1'' [example_response] = Inr db'
     \<and> find (\<lambda>r. airtableRecordId r = ''rec1'') db' = Some r1
     \<and> status r1 = Failed
     \<and> syncError (syncStatus r1) = Some ''Resource not found in Airtable.''
     \<and> syncAttempts (syncStatus r1) = 2
     \<and> answers r1 = answers example_response"
proof -
  let ?env = "example_env 1000 failing_fetch (\<lambda>op. None) no_pages"
  let ?e = "Error ''Resource not found in Airtable.''"
  have h: "syncTry ?env ''app1'' ''tbl1'' ''rec1'' [example_response] = Inl ?e
      \<and> find (\<lambda>r. airtableRecordId r = ''rec1'') [example_response] = Some example_response
      \<and> storeFault ?env (FindOne ''rec1'') = None
      \<and> storeFault ?env (Save (example_response\<lparr>status := Failed,
                 syncStatus := (syncStatus example_response)
                   \<lparr>syncError := Some (message ?e),
                     syncAttempts := syncAttempts (syncStatus example_response) + 1\<rparr>\<rparr>)) = None
      \<and> distinct (map response_id [example_response])"
    by (simp add: example_env_def example_form_def failing_fetch_def example_response_def
          syncTry_def isTokenExpired_def)
  have at: "syncAttempts (syncStatus example_response) + 1 = 2" "message ?e = ''Resource not found in Airtable.''"
    by (simp_all add: example_response_def)
  from syncSingleRecord_contains_failure
         [of ?env "''app1''" "''tbl1''" "''rec1''" "[example_response]" ?e example_response] h
  have "\<exists>db' r1. syncSingleRecord ?env ''app1'' ''tbl1'' ''rec1'' [example_response] = Inr db'
            \<and> find (\<lambda>r. airtableRecordId r = ''rec1'') db' = Some r1
            \<and> status r1 = Failed
            \<and> syncError (syncStatus r1) = Some (message ?e)
            \<and> syncAttempts (syncStatus r1) = syncAttempts (syncStatus example_response) + 1
            \<and> answers r1 = answers example_response"
    by blast
  then show ?thesis unfolding at .
qed

section \<open>Full resynchronisation: proofs\<close>

text \<open>No record sync throws, so every record of a page counts as synced.\<close>

lemma syncRecords_counts:
  "run_syncedCount (syncRecords env form ids st) = run_syncedCount st + length ids
   \<and> run_errorCount (syncRecords env form ids st) = run_errorCount st
   \<and> run_requests (syncRecords env form ids st) = run_requests st"
proof (induction ids arbitrary: st)
  case Nil
  then show ?case by simp
next
  case (Cons rid ids)
  obtain db' where "syncSingleRecord env (airtableBaseId form) (airtableTableId form) rid
                      (run_db st) = Inr db'"
    using syncSingleRecord_total by blast
  then show ?case by (simp add: Cons.IH)
qed

lemma pageLoop_page_failure:
  assumes "listRecords env (accessToken user) (airtableBaseId form) (airtableTableId form)
             (if str_truthy offset then offset else None) = Inl batchError"
  shows "pageLoop env form user offset st
         = Some (st\<lparr>run_requests := run_requests st @ [if str_truthy offset then offset else None],
                     run_errorCount := run_errorCount st + 1\<rparr>)"
  using assms by (subst pageLoop.simps) (simp add: Let_def)

lemma pageLoop_next:
  assumes "listRecords env (accessToken user) (airtableBaseId form) (airtableTableId form)
             (if str_truthy offset then offset else None)
           = Inr \<lparr>page_records = Some ids, page_offset = Some next\<rparr>" "next \<noteq> []"
  shows "pageLoop env form user offset st
         = pageLoop env form user (Some next)
             (syncRecords env form ids
                (st\<lparr>run_requests := run_requests st @ [if str_truthy offset then offset else None]\<rparr>))"
  using assms by (subst pageLoop.simps) (simp add: Let_def)

lemma pageLoop_last:
  assumes "listRecords env (accessToken user) (airtableBaseId form) (airtableTableId form)
             (if str_truthy offset then offset else None)
           = Inr \<lparr>page_records = Some ids, page_offset = nxt\<rparr>" "\<not> str_truthy nxt"
  shows "pageLoop env form user offset st
         = Some (syncRecords env form ids
                (st\<lparr>run_requests := run_requests st @ [if str_truthy offset then offset else None]\<rparr>))"
  using assms by (subst pageLoop.simps) (simp add: Let_def)

text \<open>
  C7. When the external list call returns 10, 10 and 5 records on three pages chained by
  two truthy offsets, the run issues exactly three GETs (without offset, then with each
  returned offset) and returns \<open>{success: true, syncedCount: 25, errorCount: 0}\<close>. At
  any iteration, a throw of the page's GET ends the loop at once with the error count
  incremented, the synced count and the store untouched and that one request issued,
  not repeated. The result of every run that returns carries the two counters of the
  loop.
\<close>

theorem full_sync_pagination:
  "(formFindById env fid = Inr (Some form)
    \<and> userFindById env (form_userId form) = Inr (Some user)
    \<and> \<not> isTokenExpired env user
    \<and> listRecords env (accessToken user) (airtableBaseId form) (airtableTableId form) None
        = Inr \<lparr>page_records = Some p1, page_offset = Some o1\<rparr>
    \<and> listRecords env (accessToken user) (airtableBaseId form) (airtableTableId form) (Some o1)
        = Inr \<lparr>page_records = Some p2, page_offset = Some o2\<rparr>
    \<and> listRecords env (accessToken user) (airtableBaseId form) (airtableTableId form) (Some o2)
        = Inr \<lparr>page_records = Some p3, page_offset = None\<rparr>
    \<and> o1 \<noteq> [] \<and> o2 \<noteq> []
    \<and> length p1 = 10 \<and> length p2 = 10 \<and> length p3 = 5
    \<longrightarrow> (\<exists>st. syncAllRecordsForForm env fid db
              = Some (Inr (\<lparr>success = True, syncedCount = 25, errorCount = 0\<rparr>, st))
           \<and> run_requests st = [None, Some o1, Some o2]))
   \<and> (listRecords env (accessToken user) (airtableBaseId form) (airtableTableId form)
         (if str_truthy offset then offset else None) = Inl batchError
      \<longrightarrow> pageLoop env form user offset st0
          = Some (st0\<lparr>run_requests :=
                         run_requests st0 @ [if str_truthy offset then offset else None],
                       run_errorCount := run_errorCount st0 + 1\<rparr>))
   \<and> (syncAllRecordsForForm env fid db = Some (Inr (res, st1))
      \<longrightarrow> success res \<and> syncedCount res = run_syncedCount st1
          \<and> errorCount res = run_errorCount st1)"
proof (intro conjI impI)
  assume a: "formFindById env fid = Inr (Some form)
    \<and> userFindById env (form_userId form) = Inr (Some user)
    \<and> \<not> isTokenExpired env user
    \<and> listRecords env (accessToken user) (airtableBaseId form) (airtableTableId form) None
        = Inr \<lparr>page_records = Some p1, page_offset = Some o1\<rparr>
    \<and> listRecords env (accessToken user) (airtableBaseId form) (airtableTableId form) (Some o1)
        = Inr \<lparr>page_records = Some p2, page_offset = Some o2\<rparr>
    \<and> listRecords env (accessToken user) (airtableBaseId form) (airtableTableId form) (Some o2)
        = Inr \<lparr>page_records = Some p3, page_offset = None\<rparr>
    \<and> o1 \<noteq> [] \<and> o2 \<noteq> []
    \<and> length p1 = 10 \<and> length p2 = 10 \<and> length p3 = 5"
  let ?L = "listRecords env (accessToken user) (airtableBaseId form) (airtableTableId form)"
  from a have g1: "?L (if str_truthy None then None else None)
        = Inr \<lparr>page_records = Some p1, page_offset = Some o1\<rparr>"
    and g2: "?L (if str_truthy (Some o1) then Some o1 else None)
        = Inr \<lparr>page_records = Some p2, page_offset = Some o2\<rparr>"
    and g3: "?L (if str_truthy (Some o2) then Some o2 else None)
        = Inr \<lparr>page_records = Some p3, page_offset = None\<rparr>"
    and ne: "o1 \<noteq> []" "o2 \<noteq> []"
    and len: "length p1 = 10" "length p2 = 10" "length p3 = 5"
    by simp_all
  let ?s0 = "\<lparr>run_db = db, run_syncedCount = 0, run_errorCount = 0, run_requests = []\<rparr>"
  let ?s1 = "syncRecords env form p1 (?s0\<lparr>run_requests := run_requests ?s0 @ [None]\<rparr>)"
  let ?s2 = "syncRecords env form p2 (?s1\<lparr>run_requests := run_requests ?s1 @ [Some o1]\<rparr>)"
  let ?s3 = "syncRecords env form p3 (?s2\<lparr>run_requests := run_requests ?s2 @ [Some o2]\<rparr>)"
  have "pageLoop env form user None ?s0 = pageLoop env form user (Some o1) ?s1"
    using pageLoop_next[OF g1 ne(1)] by simp
  also have "\<dots> = pageLoop env form user (Some o2) ?s2"
    using pageLoop_next[OF g2 ne(2)] ne by simp
  also have "\<dots> = Some ?s3"
    using pageLoop_last[OF g3] ne by simp
  finally have loop: "pageLoop env form user None ?s0 = Some ?s3" .
  have c: "run_syncedCount ?s3 = 25" "run_errorCount ?s3 = 0"
    "run_requests ?s3 = [None, Some o1, Some o2]"
    by (simp_all add: syncRecords_counts len)
  from a loop have "syncAllRecordsForForm env fid db
      = Some (Inr (\<lparr>success = True, syncedCount = run_syncedCount ?s3,
                     errorCount = run_errorCount ?s3\<rparr>, ?s3))"
    by (simp add: syncAllRecordsForForm_def)
  with c show "\<exists>st. syncAllRecordsForForm env fid db
              = Some (Inr (\<lparr>success = True, syncedCount = 25, errorCount = 0\<rparr>, st))
           \<and> run_requests st = [None, Some o1, Some o2]"
    by auto
next
  assume "listRecords env (accessToken user) (airtableBaseId form) (airtableTableId form)
         (if str_truthy offset then offset else None) = Inl batchError"
  then show "pageLoop env form user offset st0
          = Some (st0\<lparr>run_requests :=
                         run_requests st0 @ [if str_truthy offset then offset else None],
                       run_errorCount := run_errorCount st0 + 1\<rparr>)"
    by (rule pageLoop_page_failure)
next
  assume r: "syncAllRecordsForForm env fid db = Some (Inr (res, st1))"
  then show "success res" "syncedCount res = run_syncedCount st1"
    "errorCount res = run_errorCount st1"
    by (auto simp: syncAllRecordsForForm_def split: sum.splits option.splits if_splits)
qed

text \<open>A table of 25 records served 10 at a time; any other offset is refused.\<close>

definition example_pages :: "string option \<Rightarrow> jserror + page" where
  "example_pages offset =
     (if offset = None
        then Inr \<lparr>page_records = Some (map (\<lambda>i. ''recA'' @ [char_of (48 + i)]) [0..<10]),
                  page_offset = Some ''page2''\<rparr>
      else if offset = Some ''page2''
        then Inr \<lparr>page_records = Some (map (\<lambda>i. ''recB'' @ [char_of (48 + i)]) [0..<10]),
                  page_offset = Some ''page3''\<rparr>
      else if offset = Some ''page3''
        then Inr \<lparr>page_records = Some (map (\<lambda>i. ''recC'' @ [char_of (48 + i)]) [0..<5]),
                  page_offset = None\<rparr>
      else Inl (Error ''Resource not found in Airtable.''))"

theorem full_sync_pagination_witness:
  "(\<exists>st. syncAllRecordsForForm (example_env 1000 example_record (\<lambda>op. None) example_pages) 1 []
            = Some (Inr (\<lparr>success = True, syncedCount = 25, errorCount = 0\<rparr>, st))
         \<and> run_requests st = [None, Some ''page2'', Some ''page3''])
   \<and> pageLoop (example_env 1000 example_record (\<lambda>op. None) example_pages) example_form
        \<lparr>accessToken = ''tok'', tokenExpiresAt = 1000\<rparr> (Some ''page9'')
        \<lparr>run_db = [], run_syncedCount = 20, run_errorCount = 0,
          run_requests = [None, Some ''page2'']\<rparr>
      = Some \<lparr>run_db = [], run_syncedCount = 20, run_errorCount = 1,
                run_requests = [None, Some ''page2'', Some ''page9'']\<rparr>"
proof -
  let ?env = "example_env 1000 example_record (\<lambda>op. None) example_pages"
  let ?user = "\<lparr>accessToken = ''tok'', tokenExpiresAt = 1000\<rparr>"
  let ?p1 = "map (\<lambda>i. ''recA'' @ [char_of (48 + i)]) [0..<10::nat]"
  let ?p2 = "map (\<lambda>i. ''recB'' @ [char_of (48 + i)]) [0..<10::nat]"
  let ?p3 = "map (\<lambda>i. ''recC'' @ [char_of (48 + i)]) [0..<5::nat]"
  let ?st0 = "\<lparr>run_db = [], run_syncedCount = 20, run_errorCount = 0,
                run_requests = [None, Some ''page2'']\<rparr>"
  let ?L = "listRecords ?env (accessToken ?user) (airtableBaseId example_form)
              (airtableTableId example_form)"
  have h1: "formFindById ?env 1 = Inr (Some example_form)
    \<and> userFindById ?env (form_userId example_form) = Inr (Some ?user)
    \<and> \<not> isTokenExpired ?env ?user
    \<and> ?L None = Inr \<lparr>page_records = Some ?p1, page_offset = Some ''page2''\<rparr>
    \<and> ?L (Some ''page2'') = Inr \<lparr>page_records = Some ?p2, page_offset = Some ''page3''\<rparr>
    \<and> ?L (Some ''page3'') = Inr \<lparr>page_records = Some ?p3, page_offset = None\<rparr>
    \<and> ''page2'' \<noteq> [] \<and> ''page3'' \<noteq> []
    \<and> length ?p1 = 10 \<and> length ?p2 = 10 \<and> length ?p3 = 5"
    by (simp add: example_env_def example_form_def example_pages_def isTokenExpired_def)
  have h2: "?L (if str_truthy (Some ''page9'') then Some ''page9'' else None)
              = Inl (Error ''Resource not found in Airtable.'')"
    by (simp add: example_env_def example_pages_def)
  from full_sync_pagination
         [of ?env 1 example_form ?user ?p1 "''page2''" ?p2 "''page3''" ?p3 "[]"
             "Some ''page9''" "Error ''Resource not found in Airtable.''" ?st0] h1 h2
  show ?thesis by simp
qed

section \<open>Retry of failed synchronisations: proofs\<close>





section \<open>Cycle detection: proofs\<close>

definition onStack :: "dfs_state \<Rightarrow> string set" where
  "onStack s = {n. recursionStack s n}"

lemma onStack_simps [simp]:
  "onStack (enter n s) = insert n (onStack s)"
  "onStack (leave n s) = onStack s - {n}"
  "onStack (pushCycle p s) = onStack s"
  by (auto simp: onStack_def enter_def leave_def pushCycle_def)

lemma cycles_simps [simp]:
  "cycles (enter n s) = cycles s"
  "cycles (leave n s) = cycles s"
  "cycles (pushCycle p s) = cycles s @ [p]"
  by (simp_all add: enter_def leave_def pushCycle_def)

lemma recursionStack_onStack: "recursionStack s n \<longleftrightarrow> n \<in> onStack s"
  by (simp add: onStack_def)

declare dfs.simps [simp del]








lemma cycles_nonempty_mono:
  assumes "\<exists>ext. cycles s' = cycles s @ ext" "cycles s' = []"
  shows "cycles s = []"
  using assms by auto









subsection \<open>The loop over the roots\<close>



subsection \<open>The graph that \<open>createDependencyGraph\<close> builds\<close>




lemma dependents_update_other:
  "k \<noteq> k' \<Longrightarrow> dependents (AList.update k' v g) k = dependents g k"
  by (simp add: dependents_def update_conv')









subsection \<open>The detector\<close>




subsection \<open>Examples\<close>









end
